theory Spec2Isabelle
  imports Main "HOL-Library.Word"
begin

section \<open>Streamable-HTTP transport of the MCP server (server/streamable\_http.go)\<close>

text \<open>
  The theory embeds the transport of \<^verbatim>\<open>server/streamable_http.go\<close>: the session-id
  policies, the per-session stores, the request counter, and the three handlers
  \<^verbatim>\<open>handlePost\<close>, \<^verbatim>\<open>handleGet\<close> and \<^verbatim>\<open>handleDelete\<close>.

  Go strings are byte strings, as \<^typ>\<open>string\<close> is. What the file imports from other
  packages (\<^verbatim>\<open>net/http\<close>, \<^verbatim>\<open>mime\<close>, \<^verbatim>\<open>encoding/json\<close>, \<^verbatim>\<open>uuid\<close>, the MCP engine) is
  either given a small model of its documented behaviour (the response writer) or taken
  as a parameter (the parsers, the engine).
\<close>

subsection \<open>Messages and the response writer\<close>

text \<open>
  What the transport hands to \<^verbatim>\<open>writeSSEEvent\<close> or to a JSON encoder: a notification taken
  from the session channel, the engine's response, the heartbeat request
  \<^verbatim>\<open>mcp.JSONRPCRequest{JSONRPC: "2.0", ID: id, Request: {Method: "ping"}}\<close>, or the error
  envelope of \<^verbatim>\<open>createErrorResponse(id, code, message)\<close>. Notifications and engine
  responses are opaque to the transport; they are kept as the text that stands for them.
\<close>

datatype payload =
    Notif string
  | Resp string
  | PingRequest int
  | JSONRPCError "string option" int string

text \<open>
  One write on the response body: an event frame \<^verbatim>\<open>event: message\ndata: <json>\n\n\<close>
  (\<^verbatim>\<open>writeSSEEvent\<close>), one JSON document (\<^verbatim>\<open>json.NewEncoder(w).Encode\<close>), or the text
  that \<^verbatim>\<open>http.Error\<close> prints.
\<close>

datatype chunk =
    SSEEvent payload
  | JSONDoc payload
  | Text string

text \<open>
  \<^verbatim>\<open>http.ResponseWriter\<close>: the header map \<^verbatim>\<open>w.Header()\<close>, the status line once
  \<^verbatim>\<open>WriteHeader\<close> has run together with the headers that went out with it, and the body.
  As \<^verbatim>\<open>net/http\<close> documents, only the first \<^verbatim>\<open>WriteHeader\<close> counts, a change of the
  header map after it does not reach the client, and a write before any \<^verbatim>\<open>WriteHeader\<close>
  sends status 200 first. Writes do not fail in this model. \<open>rw_flusher\<close> says whether
  the writer implements \<^verbatim>\<open>http.Flusher\<close>.
\<close>

record response_writer =
  rw_header :: "string \<rightharpoonup> string"
  rw_status :: "nat option"
  rw_sent :: "string \<rightharpoonup> string"
  rw_body :: "chunk list"
  rw_flusher :: bool

definition new_writer :: "bool \<Rightarrow> response_writer" where
  "new_writer fl =
     \<lparr>rw_header = Map.empty, rw_status = None, rw_sent = Map.empty, rw_body = [],
      rw_flusher = fl\<rparr>"

definition Header_Set :: "string \<Rightarrow> string \<Rightarrow> response_writer \<Rightarrow> response_writer" where
  "Header_Set k v w = w\<lparr>rw_header := (rw_header w)(k \<mapsto> v)\<rparr>"

definition WriteHeader :: "nat \<Rightarrow> response_writer \<Rightarrow> response_writer" where
  "WriteHeader code w =
     (case rw_status w of
        None \<Rightarrow> w\<lparr>rw_status := Some code, rw_sent := rw_header w\<rparr>
      | Some _ \<Rightarrow> w)"

definition Write :: "chunk \<Rightarrow> response_writer \<Rightarrow> response_writer" where
  "Write c w = (let w' = WriteHeader 200 w in w'\<lparr>rw_body := rw_body w' @ [c]\<rparr>)"

text \<open>
  \<^verbatim>\<open>http.Error(w, msg, code)\<close>: plain-text content type, the status, the message.
\<close>

definition http_Error :: "response_writer \<Rightarrow> string \<Rightarrow> nat \<Rightarrow> response_writer" where
  "http_Error w msg code =
     Write (Text msg)
       (WriteHeader code
         (Header_Set ''X-Content-Type-Options'' ''nosniff''
           (Header_Set ''Content-Type'' ''text/plain; charset=utf-8'' w)))"

definition writeSSEEvent :: "response_writer \<Rightarrow> payload \<Rightarrow> response_writer" where
  "writeSSEEvent w data = Write (SSEEvent data) w"

definition StatusOK :: nat where "StatusOK = 200"
definition StatusAccepted :: nat where "StatusAccepted = 202"
definition StatusBadRequest :: nat where "StatusBadRequest = 400"
definition StatusNotFound :: nat where "StatusNotFound = 404"
definition StatusMethodNotAllowed :: nat where "StatusMethodNotAllowed = 405"
definition StatusInternalServerError :: nat where "StatusInternalServerError = 500"

definition PARSE_ERROR :: int where "PARSE_ERROR = - 32700"

definition headerKeySessionID :: string where
  "headerKeySessionID = ''Mcp-Session-Id''"

subsection \<open>Requests\<close>

text \<open>
  The parts of \<^verbatim>\<open>*http.Request\<close> the handlers read. \<open>req_body\<close> is what
  \<^verbatim>\<open>io.ReadAll(r.Body)\<close> returns: the error text or the bytes. Whether the
  request context is done is part of the running handler's state, not of the request.
\<close>

record request =
  req_method :: string
  req_header :: "string \<rightharpoonup> string"
  req_body :: "string + string"
  req_query :: "string \<rightharpoonup> string list"

text \<open>\<^verbatim>\<open>r.Header.Get(key)\<close>: the empty string when the header is absent.\<close>

definition Header_Get :: "(string \<rightharpoonup> string) \<Rightarrow> string \<Rightarrow> string" where
  "Header_Get h k = (case h k of None \<Rightarrow> [] | Some v \<Rightarrow> v)"

text \<open>
  \<^verbatim>\<open>for k, v := range r.URL.Query() { params[k] = v[0] }\<close>. The value lists of
  \<^verbatim>\<open>url.Values\<close> are never empty; a key with an empty list would panic in Go and is left
  out of the map here.
\<close>

definition query_params :: "(string \<rightharpoonup> string list) \<Rightarrow> (string \<rightharpoonup> string)" where
  "query_params q =
     (\<lambda>k. case q k of None \<Rightarrow> None | Some [] \<Rightarrow> None | Some (v # _) \<Rightarrow> Some v)"

subsection \<open>Session-id policies\<close>

text \<open>
  The interface \<^verbatim>\<open>SessionIdManager\<close>. \<open>Generate\<close> takes the text of the UUID that
  \<^verbatim>\<open>uuid.New().String()\<close> draws for this call (a policy that draws none ignores it).
  \<open>Validate\<close> and \<open>Terminate\<close> return the flag and the error, \<open>None\<close> for \<^verbatim>\<open>nil\<close>.
\<close>

record SessionIdManager =
  Generate :: "string \<Rightarrow> string"
  Validate :: "string \<Rightarrow> bool \<times> string option"
  Terminate :: "string \<Rightarrow> bool \<times> string option"

definition StatelessSessionIdManager :: SessionIdManager where
  "StatelessSessionIdManager =
     \<lparr>Generate = (\<lambda>_. []),
      Validate = (\<lambda>_. (False, None)),
      Terminate = (\<lambda>_. (False, None))\<rparr>"

definition idPrefix :: string where
  "idPrefix = ''mcp-session-''"

definition HasPrefix :: "string \<Rightarrow> string \<Rightarrow> bool" where
  "HasPrefix s p = (take (length p) s = p)"

text \<open>
  \<^verbatim>\<open>InsecureStatefulSessionIdManager\<close>. \<open>parse\<close> stands for \<^verbatim>\<open>uuid.Parse\<close>: it says
  whether the library accepts the text.
\<close>

definition InsecureStateful_Generate :: "string \<Rightarrow> string" where
  "InsecureStateful_Generate u = idPrefix @ u"

definition InsecureStateful_Validate :: "(string \<Rightarrow> bool) \<Rightarrow> string \<Rightarrow> bool \<times> string option" where
  "InsecureStateful_Validate parse sessionID =
     (if \<not> HasPrefix sessionID idPrefix
        then (False, Some (''invalid session id: '' @ sessionID))
      else if \<not> parse (drop (length idPrefix) sessionID)
        then (False, Some (''invalid session id: '' @ sessionID))
      else (False, None))"

definition InsecureStatefulSessionIdManager :: "(string \<Rightarrow> bool) \<Rightarrow> SessionIdManager" where
  "InsecureStatefulSessionIdManager parse =
     \<lparr>Generate = InsecureStateful_Generate,
      Validate = InsecureStateful_Validate parse,
      Terminate = (\<lambda>_. (False, None))\<rparr>"

subsection \<open>Per-session stores and the server\<close>

datatype LoggingLevel =
    LoggingLevelDebug | LoggingLevelInfo | LoggingLevelNotice | LoggingLevelWarning
  | LoggingLevelError | LoggingLevelCritical | LoggingLevelAlert | LoggingLevelEmergency

text \<open>A tool map: tool name to tool; the tool itself is opaque.\<close>

type_synonym tool_map = "string \<rightharpoonup> string"

record StreamableHTTPServer =
  sessionTools :: "string \<rightharpoonup> tool_map"
  sessionRequestIDs :: "string \<rightharpoonup> int"
  sessionLogLevels :: "string \<rightharpoonup> LoggingLevel"
  sessionIdManager :: SessionIdManager
  listenHeartbeatInterval :: int

text \<open>
  \<^verbatim>\<open>NewStreamableHTTPServer\<close> before the options: empty stores, the insecure stateful
  policy, no heartbeat.
\<close>

definition NewStreamableHTTPServer :: "(string \<Rightarrow> bool) \<Rightarrow> StreamableHTTPServer" where
  "NewStreamableHTTPServer parse =
     \<lparr>sessionTools = Map.empty, sessionRequestIDs = Map.empty,
      sessionLogLevels = Map.empty,
      sessionIdManager = InsecureStatefulSessionIdManager parse,
      listenHeartbeatInterval = 0\<rparr>"

definition WithStateLess :: "bool \<Rightarrow> StreamableHTTPServer \<Rightarrow> StreamableHTTPServer" where
  "WithStateLess stateLess s =
     (if stateLess then s\<lparr>sessionIdManager := StatelessSessionIdManager\<rparr> else s)"

definition WithSessionIdManager :: "SessionIdManager \<Rightarrow> StreamableHTTPServer \<Rightarrow> StreamableHTTPServer" where
  "WithSessionIdManager manager s = s\<lparr>sessionIdManager := manager\<rparr>"

definition WithHeartbeatInterval :: "int \<Rightarrow> StreamableHTTPServer \<Rightarrow> StreamableHTTPServer" where
  "WithHeartbeatInterval interval s = s\<lparr>listenHeartbeatInterval := interval\<rparr>"

text \<open>\<^verbatim>\<open>sessionLogLevelsStore\<close>: get, set, delete.\<close>

definition logLevels_get :: "(string \<rightharpoonup> LoggingLevel) \<Rightarrow> string \<Rightarrow> LoggingLevel" where
  "logLevels_get logs sessionID =
     (case logs sessionID of None \<Rightarrow> LoggingLevelError | Some val \<Rightarrow> val)"

definition logLevels_set ::
  "(string \<rightharpoonup> LoggingLevel) \<Rightarrow> string \<Rightarrow> LoggingLevel \<Rightarrow> (string \<rightharpoonup> LoggingLevel)" where
  "logLevels_set logs sessionID level = logs(sessionID \<mapsto> level)"

definition logLevels_delete :: "(string \<rightharpoonup> LoggingLevel) \<Rightarrow> string \<Rightarrow> (string \<rightharpoonup> LoggingLevel)" where
  "logLevels_delete logs sessionID = logs(sessionID := None)"

text \<open>
  \<^verbatim>\<open>sessionToolsStore\<close>: get returns the stored map, \<open>None\<close> for the nil map of a missing key.
\<close>

definition tools_get :: "(string \<rightharpoonup> tool_map) \<Rightarrow> string \<Rightarrow> tool_map option" where
  "tools_get tools sessionID = tools sessionID"

definition tools_set :: "(string \<rightharpoonup> tool_map) \<Rightarrow> string \<Rightarrow> tool_map \<Rightarrow> (string \<rightharpoonup> tool_map)" where
  "tools_set tools sessionID ts = tools(sessionID \<mapsto> ts)"

definition tools_delete :: "(string \<rightharpoonup> tool_map) \<Rightarrow> string \<Rightarrow> (string \<rightharpoonup> tool_map)" where
  "tools_delete tools sessionID = tools(sessionID := None)"

text \<open>
  \<^verbatim>\<open>nextRequestID\<close>: \<^verbatim>\<open>LoadOrStore(sessionID, new(atomic.Int64))\<close>, then \<^verbatim>\<open>Add(1)\<close> on
  the 64-bit counter, which wraps.
\<close>

definition wrap64 :: "int \<Rightarrow> int" where
  "wrap64 x = (x + 2 ^ 63) mod 2 ^ 64 - 2 ^ 63"

definition nextRequestID :: "StreamableHTTPServer \<Rightarrow> string \<Rightarrow> int \<times> StreamableHTTPServer" where
  "nextRequestID s sessionID =
     (let counter = (case sessionRequestIDs s sessionID of None \<Rightarrow> 0 | Some c \<Rightarrow> c);
          v = wrap64 (counter + 1)
      in (v, s\<lparr>sessionRequestIDs := (sessionRequestIDs s)(sessionID \<mapsto> v)\<rparr>))"

subsection \<open>Calls to the policy and to the engine\<close>

text \<open>
  Every handler returns, beside the writer and the server, the calls it made to the
  session-id policy and to the MCP engine, in order.
\<close>

datatype call =
    CallGenerate
  | CallValidate string
  | CallTerminate string
  | CallHandleMessage string string
  | CallRegisterSession string
  | CallUnregisterSession string

subsection \<open>DELETE\<close>

definition handleDelete ::
  "StreamableHTTPServer \<Rightarrow> response_writer \<Rightarrow> request
     \<Rightarrow> response_writer \<times> StreamableHTTPServer \<times> call list" where
  "handleDelete s w r =
     (let sessionID = Header_Get (req_header r) headerKeySessionID;
          (notAllowed, err) = Terminate (sessionIdManager s) sessionID
      in case err of
           Some e \<Rightarrow>
             (http_Error w (''Session termination failed: '' @ e) StatusInternalServerError,
              s, [CallTerminate sessionID])
         | None \<Rightarrow>
             if notAllowed
             then (http_Error w ''Session termination not allowed'' StatusMethodNotAllowed,
                   s, [CallTerminate sessionID])
             else (WriteHeader StatusOK w,
                   s\<lparr>sessionTools := tools_delete (sessionTools s) sessionID,
                     sessionLogLevels := logLevels_delete (sessionLogLevels s) sessionID,
                     sessionRequestIDs := (sessionRequestIDs s)(sessionID := None)\<rparr>,
                   [CallTerminate sessionID]))"

subsection \<open>What the handlers take from outside\<close>

text \<open>
  What a session can be asked to do by the code that runs inside the engine
  (\<^verbatim>\<open>streamableHttpSession\<close>'s methods with an effect): send on
  \<^verbatim>\<open>NotificationChannel()\<close>, \<^verbatim>\<open>UpgradeToSSEWhenReceiveNotification\<close>, \<^verbatim>\<open>SetLogLevel\<close>,
  \<^verbatim>\<open>SetSessionTools\<close>.
\<close>

datatype session_op =
    SendNotification string
  | UpgradeToSSE
  | SetLogLevel LoggingLevel
  | SetSessionTools tool_map

text \<open>
  The library functions and the engine, as parameters.
  \<^item> \<open>ParseMediaType\<close>: \<^verbatim>\<open>mime.ParseMediaType\<close>, the media type or \<open>None\<close> for an error.
  \<^item> \<open>Unmarshal_Method\<close>: \<^verbatim>\<open>json.Unmarshal(rawData, &baseMessage)\<close>, \<open>None\<close> for an
    error, otherwise the \<^verbatim>\<open>method\<close> field.
  \<^item> \<open>uuid_New\<close>: the text \<^verbatim>\<open>uuid.New().String()\<close> returns in this request.
  \<^item> \<open>engine_HandleMessage\<close>: for the session id, the query parameters, the request
    headers placed in the context and the raw body, what \<^verbatim>\<open>HandleMessage\<close> does with the
    session, in order, and the response it returns (\<open>None\<close> for nil).
  \<^item> \<open>engine_RegisterSession\<close>: the error of \<^verbatim>\<open>RegisterSession\<close>, \<open>None\<close> for nil.
\<close>

record environment =
  ParseMediaType :: "string \<Rightarrow> string option"
  Unmarshal_Method :: "string \<Rightarrow> string option"
  uuid_New :: string
  engine_HandleMessage ::
    "string \<Rightarrow> (string \<rightharpoonup> string) \<Rightarrow> (string \<rightharpoonup> string) \<Rightarrow> string
       \<Rightarrow> session_op list \<times> string option"
  engine_RegisterSession :: "string \<Rightarrow> string option"

subsection \<open>POST\<close>

definition writeJSONRPCError ::
  "response_writer \<Rightarrow> string option \<Rightarrow> int \<Rightarrow> string \<Rightarrow> response_writer" where
  "writeJSONRPCError w ident code message =
     Write (JSONDoc (JSONRPCError ident code message))
       (WriteHeader StatusBadRequest
         (Header_Set ''Content-Type'' ''application/json'' w))"

text \<open>
  The three headers and the status that upgrade a POST response to an event stream, in
  the order of the source.
\<close>

definition upgrade_headers :: "response_writer \<Rightarrow> response_writer" where
  "upgrade_headers w =
     WriteHeader StatusOK
       (Header_Set ''Cache-Control'' ''no-cache''
         (Header_Set ''Connection'' ''keep-alive''
           (Header_Set ''Content-Type'' ''text/event-stream'' w)))"

text \<open>
  From the call of \<^verbatim>\<open>HandleMessage\<close> on, \<^verbatim>\<open>handlePost\<close> runs two goroutines on shared
  variables. The state holds those variables and where each goroutine stands.

  The main goroutine: inside \<^verbatim>\<open>HandleMessage\<close> with the session operations still to
  come and the response it will return; holding the mutex before the final write; at
  the deferred \<^verbatim>\<open>close(done)\<close>; at the deferred \<^verbatim>\<open>mu.Unlock()\<close>; returned.

  The notification goroutine: at the outer \<^verbatim>\<open>select\<close>; with a notification, waiting
  for \<^verbatim>\<open>mu.Lock()\<close>; holding the mutex before the inner \<^verbatim>\<open>select\<close> on \<^verbatim>\<open>done\<close>; after the
  event is written, at the deferred flush and unlock; returned.
\<close>

datatype main_pc =
    MHandle "session_op list" "string option"
  | MLocked string
  | MDeferClose
  | MDeferUnlock
  | MReturned

datatype reader_pc =
    RSelect
  | RLock string
  | RBody string
  | RFlush
  | RReturned

record post_state =
  ps_w :: response_writer
  ps_srv :: StreamableHTTPServer
  ps_sessionID :: string
  ps_channel :: "string list"
  ps_upgradeToSSE :: bool
  ps_upgradedHeader :: bool
  ps_done :: bool
  ps_locked :: bool
  ps_ctxDone :: bool
  ps_main :: main_pc
  ps_reader :: reader_pc

text \<open>
  One step of one goroutine, chosen by the scheduler. A step that is not enabled (a
  lock that is held, a channel that is empty or full) leaves the state as it is.
  \<open>ReaderRecv\<close>, \<open>ReaderDone\<close> and \<open>ReaderCtxDone\<close> are the three cases of the outer
  \<^verbatim>\<open>select\<close>; \<open>CtxCancel\<close> is the request context being cancelled.
\<close>

datatype post_label =
    MainStep
  | ReaderRecv
  | ReaderDone
  | ReaderCtxDone
  | ReaderStep
  | CtxCancel

text \<open>
  A session operation, on the session \<^verbatim>\<open>newStreamableHttpSession(sessionID, s.sessionTools,
  s.sessionLogLevels, params)\<close>: the channel has capacity 100 and a send on a full channel
  waits; the stores are the server's, keyed by the session id.
\<close>

definition GetLogLevel :: "post_state \<Rightarrow> LoggingLevel" where
  "GetLogLevel s = logLevels_get (sessionLogLevels (ps_srv s)) (ps_sessionID s)"

definition GetSessionTools :: "post_state \<Rightarrow> tool_map option" where
  "GetSessionTools s = tools_get (sessionTools (ps_srv s)) (ps_sessionID s)"

definition session_do :: "session_op \<Rightarrow> post_state \<Rightarrow> post_state option" where
  "session_do op s =
     (case op of
        SendNotification nt \<Rightarrow>
          if length (ps_channel s) < 100
          then Some (s\<lparr>ps_channel := ps_channel s @ [nt]\<rparr>)
          else None
      | UpgradeToSSE \<Rightarrow> Some (s\<lparr>ps_upgradeToSSE := True\<rparr>)
      | SetLogLevel level \<Rightarrow>
          Some (s\<lparr>ps_srv := (ps_srv s)
                  \<lparr>sessionLogLevels :=
                     logLevels_set (sessionLogLevels (ps_srv s)) (ps_sessionID s) level\<rparr>\<rparr>)
      | SetSessionTools ts \<Rightarrow>
          Some (s\<lparr>ps_srv := (ps_srv s)
                  \<lparr>sessionTools := tools_set (sessionTools (ps_srv s)) (ps_sessionID s) ts\<rparr>\<rparr>))"

text \<open>The final write, under the mutex, after \<^verbatim>\<open>ctx.Err()\<close> was found nil.\<close>

definition write_response :: "bool \<Rightarrow> string \<Rightarrow> post_state \<Rightarrow> post_state" where
  "write_response isInitializeRequest response s =
     (if ps_upgradeToSSE s
      then
        (let w1 = (if \<not> ps_upgradedHeader s then upgrade_headers (ps_w s) else ps_w s)
         in s\<lparr>ps_w := writeSSEEvent w1 (Resp response), ps_upgradedHeader := True\<rparr>)
      else
        (let w1 = Header_Set ''Content-Type'' ''application/json'' (ps_w s);
             w2 = (if isInitializeRequest \<and> ps_sessionID s \<noteq> []
                   then Header_Set headerKeySessionID (ps_sessionID s) w1 else w1);
             w3 = WriteHeader StatusOK w2
         in s\<lparr>ps_w := Write (JSONDoc (Resp response)) w3\<rparr>))"

definition main_step :: "bool \<Rightarrow> post_state \<Rightarrow> post_state" where
  "main_step isInitializeRequest s =
     (case ps_main s of
        MHandle (op # ops) response \<Rightarrow>
          (case session_do op s of
             None \<Rightarrow> s
           | Some s' \<Rightarrow> s'\<lparr>ps_main := MHandle ops response\<rparr>)
      | MHandle [] None \<Rightarrow>
          s\<lparr>ps_w := WriteHeader StatusAccepted (ps_w s), ps_main := MReturned\<rparr>
      | MHandle [] (Some response) \<Rightarrow>
          if ps_locked s then s
          else s\<lparr>ps_locked := True, ps_main := MLocked response\<rparr>
      | MLocked response \<Rightarrow>
          if ps_ctxDone s then s\<lparr>ps_main := MDeferClose\<rparr>
          else (write_response isInitializeRequest response s)
                 \<lparr>ps_main := MDeferClose\<rparr>
      | MDeferClose \<Rightarrow> s\<lparr>ps_done := True, ps_main := MDeferUnlock\<rparr>
      | MDeferUnlock \<Rightarrow> s\<lparr>ps_locked := False, ps_main := MReturned\<rparr>
      | MReturned \<Rightarrow> s)"

definition reader_step :: "post_state \<Rightarrow> post_state" where
  "reader_step s =
     (case ps_reader s of
        RLock nt \<Rightarrow>
          if ps_locked s then s
          else s\<lparr>ps_locked := True, ps_reader := RBody nt\<rparr>
      | RBody nt \<Rightarrow>
          if ps_done s then s\<lparr>ps_locked := False, ps_reader := RSelect\<rparr>
          else
            (let w1 = (if \<not> ps_upgradedHeader s then upgrade_headers (ps_w s) else ps_w s)
             in s\<lparr>ps_w := writeSSEEvent w1 (Notif nt), ps_upgradedHeader := True,
                  ps_reader := RFlush\<rparr>)
      | RFlush \<Rightarrow> s\<lparr>ps_locked := False, ps_reader := RSelect\<rparr>
      | _ \<Rightarrow> s)"

definition post_step :: "bool \<Rightarrow> post_label \<Rightarrow> post_state \<Rightarrow> post_state" where
  "post_step isInitializeRequest l s =
     (case l of
        MainStep \<Rightarrow> main_step isInitializeRequest s
      | ReaderRecv \<Rightarrow>
          (case (ps_reader s, ps_channel s) of
             (RSelect, nt # rest) \<Rightarrow> s\<lparr>ps_channel := rest, ps_reader := RLock nt\<rparr>
           | _ \<Rightarrow> s)
      | ReaderDone \<Rightarrow>
          if ps_reader s = RSelect \<and> ps_done s then s\<lparr>ps_reader := RReturned\<rparr> else s
      | ReaderCtxDone \<Rightarrow>
          if ps_reader s = RSelect \<and> ps_ctxDone s then s\<lparr>ps_reader := RReturned\<rparr> else s
      | ReaderStep \<Rightarrow> reader_step s
      | CtxCancel \<Rightarrow> s\<lparr>ps_ctxDone := True\<rparr>)"

fun post_run :: "bool \<Rightarrow> post_label list \<Rightarrow> post_state \<Rightarrow> post_state" where
  "post_run isInitializeRequest [] s = s"
| "post_run isInitializeRequest (l # ls) s =
     post_run isInitializeRequest ls (post_step isInitializeRequest l s)"

text \<open>
  The state when the notification goroutine has been started and \<^verbatim>\<open>HandleMessage\<close> is
  called: the session with its id, empty channel, both flags false, \<^verbatim>\<open>done\<close> open, mutex free.
\<close>

definition post_init ::
  "StreamableHTTPServer \<Rightarrow> response_writer \<Rightarrow> string \<Rightarrow> session_op list \<times> string option
     \<Rightarrow> post_state" where
  "post_init s w sessionID script =
     \<lparr>ps_w = w, ps_srv = s, ps_sessionID = sessionID, ps_channel = [], ps_upgradeToSSE = False,
      ps_upgradedHeader = False, ps_done = False, ps_locked = False, ps_ctxDone = False,
      ps_main = MHandle (fst script) (snd script), ps_reader = RSelect\<rparr>"

definition invalid_content_type :: string where
  "invalid_content_type =
     ''Invalid content type: must be '' @ [CHR 0x27] @ ''application/json'' @ [CHR 0x27]"

text \<open>
  \<^verbatim>\<open>handlePost\<close>. \<open>Inl\<close> is a request answered before the session exists; \<open>Inr\<close> is the
  state the two goroutines have reached under the schedule \<open>sched\<close>. Both come with the
  calls made to the policy and the engine.
\<close>

definition handlePost ::
  "environment \<Rightarrow> StreamableHTTPServer \<Rightarrow> response_writer \<Rightarrow> request \<Rightarrow> post_label list
     \<Rightarrow> (response_writer + post_state) \<times> call list" where
  "handlePost env s w r sched =
     (let contentType = Header_Get (req_header r) ''Content-Type'' in
      case ParseMediaType env contentType of
        None \<Rightarrow> (Inl (http_Error w invalid_content_type StatusBadRequest), [])
      | Some mediaType \<Rightarrow>
          if mediaType \<noteq> ''application/json''
          then (Inl (http_Error w invalid_content_type StatusBadRequest), [])
          else
            (case req_body r of
               Inl err \<Rightarrow>
                 (Inl (writeJSONRPCError w None PARSE_ERROR
                         (''read request body error: '' @ err)), [])
             | Inr rawData \<Rightarrow>
                 (case Unmarshal_Method env rawData of
                    None \<Rightarrow>
                      (Inl (writeJSONRPCError w None PARSE_ERROR
                              ''request body is not valid json''), [])
                  | Some method \<Rightarrow>
                      (let isInitializeRequest = (method = ''initialize'');
                           params = query_params (req_query r);
                           run = (\<lambda>sessionID.
                             post_run isInitializeRequest sched
                               (post_init s w sessionID
                                 (engine_HandleMessage env sessionID params
                                    (req_header r) rawData)))
                       in if isInitializeRequest
                          then
                            (let sessionID = Generate (sessionIdManager s) (uuid_New env)
                             in (Inr (run sessionID),
                                 [CallGenerate, CallHandleMessage sessionID rawData]))
                          else
                            (let sessionID = Header_Get (req_header r) headerKeySessionID;
                                 (isTerminated, err) = Validate (sessionIdManager s) sessionID
                             in if err \<noteq> None
                                then (Inl (http_Error w ''Invalid session ID'' StatusBadRequest),
                                      [CallValidate sessionID])
                                else if isTerminated
                                then (Inl (http_Error w ''Session terminated'' StatusNotFound),
                                      [CallValidate sessionID])
                                else (Inr (run sessionID),
                                      [CallValidate sessionID,
                                       CallHandleMessage sessionID rawData]))))))"

subsection \<open>GET\<close>

text \<open>
  After the headers are written and flushed, \<^verbatim>\<open>handleGet\<close> runs up to three goroutines:
  the handler's own loop, which takes items from \<^verbatim>\<open>writeChan\<close> and writes them; the
  forwarder, which moves notifications from the session channel to \<^verbatim>\<open>writeChan\<close>; and,
  when the heartbeat interval is positive, the pinger, which on every tick builds a
  \<^verbatim>\<open>ping\<close> request whose id is \<^verbatim>\<open>nextRequestID(sessionID)\<close> and sends it on \<^verbatim>\<open>writeChan\<close>.

  The loop: running, or returned (the deferred \<^verbatim>\<open>close(done)\<close> and
  \<^verbatim>\<open>UnregisterSession\<close> have run). The forwarder: at its outer \<^verbatim>\<open>select\<close>, at the inner
  one with a notification to send, or returned. The pinger: not started, at its outer
  \<^verbatim>\<open>select\<close>, at the inner one with a message to send, or returned.
\<close>

datatype get_pc = GLoop | GReturned

datatype forwarder_pc = FSelect | FSend string | FReturned

datatype pinger_pc = PNone | PSelect | PSend payload | PReturned

record get_state =
  gs_w :: response_writer
  gs_srv :: StreamableHTTPServer
  gs_sessionID :: string
  gs_channel :: "string list"
  gs_writeChan :: "payload list"
  gs_done :: bool
  gs_ctxDone :: bool
  gs_main :: get_pc
  gs_forwarder :: forwarder_pc
  gs_pinger :: pinger_pc

text \<open>
  One step, chosen by the scheduler; a step that is not enabled leaves the state as it is.
  \<open>Notify\<close> is the engine sending a notification to the registered session (the channel
  has capacity 100); \<open>Tick\<close> is the ticker firing; \<open>FwdDone\<close> and \<open>PingDone\<close> are the
  \<^verbatim>\<open>done\<close> cases of the forwarder's and the pinger's two \<^verbatim>\<open>select\<close>s; \<open>MainWrite\<close> and
  \<open>MainCtxDone\<close> are the two cases of the loop's \<^verbatim>\<open>select\<close>; \<open>GetCtxCancel\<close> is the
  request context being cancelled. \<^verbatim>\<open>writeChan\<close> has capacity 16.
\<close>

datatype get_label =
    Notify string
  | FwdRecv
  | FwdSend
  | FwdDone
  | Tick
  | PingSend
  | PingDone
  | MainWrite
  | MainCtxDone
  | GetCtxCancel

definition get_step :: "get_label \<Rightarrow> get_state \<Rightarrow> get_state" where
  "get_step l s =
     (case l of
        Notify nt \<Rightarrow>
          if length (gs_channel s) < 100 then s\<lparr>gs_channel := gs_channel s @ [nt]\<rparr> else s
      | FwdRecv \<Rightarrow>
          (case (gs_forwarder s, gs_channel s) of
             (FSelect, nt # rest) \<Rightarrow> s\<lparr>gs_channel := rest, gs_forwarder := FSend nt\<rparr>
           | _ \<Rightarrow> s)
      | FwdSend \<Rightarrow>
          (case gs_forwarder s of
             FSend nt \<Rightarrow>
               if length (gs_writeChan s) < 16
               then s\<lparr>gs_writeChan := gs_writeChan s @ [Notif nt], gs_forwarder := FSelect\<rparr>
               else s
           | _ \<Rightarrow> s)
      | FwdDone \<Rightarrow>
          if gs_done s \<and> gs_forwarder s \<noteq> FReturned
          then s\<lparr>gs_forwarder := FReturned\<rparr> else s
      | Tick \<Rightarrow>
          (case gs_pinger s of
             PSelect \<Rightarrow>
               (let (ident, srv) = nextRequestID (gs_srv s) (gs_sessionID s)
                in s\<lparr>gs_srv := srv, gs_pinger := PSend (PingRequest ident)\<rparr>)
           | _ \<Rightarrow> s)
      | PingSend \<Rightarrow>
          (case gs_pinger s of
             PSend message \<Rightarrow>
               if length (gs_writeChan s) < 16
               then s\<lparr>gs_writeChan := gs_writeChan s @ [message], gs_pinger := PSelect\<rparr>
               else s
           | _ \<Rightarrow> s)
      | PingDone \<Rightarrow>
          if gs_done s \<and> gs_pinger s \<noteq> PNone \<and> gs_pinger s \<noteq> PReturned
          then s\<lparr>gs_pinger := PReturned\<rparr> else s
      | MainWrite \<Rightarrow>
          (case (gs_main s, gs_writeChan s) of
             (GLoop, data # rest) \<Rightarrow>
               s\<lparr>gs_w := writeSSEEvent (gs_w s) data, gs_writeChan := rest\<rparr>
           | _ \<Rightarrow> s)
      | MainCtxDone \<Rightarrow>
          if gs_main s = GLoop \<and> gs_ctxDone s
          then s\<lparr>gs_done := True, gs_main := GReturned\<rparr> else s
      | GetCtxCancel \<Rightarrow> s\<lparr>gs_ctxDone := True\<rparr>)"

fun get_run :: "get_label list \<Rightarrow> get_state \<Rightarrow> get_state" where
  "get_run [] s = s"
| "get_run (l # ls) s = get_run ls (get_step l s)"

text \<open>
  The state when the goroutines are started: the headers are out, both channels are empty,
  and the pinger exists only for a positive \<^verbatim>\<open>listenHeartbeatInterval\<close>.
\<close>

definition get_init :: "StreamableHTTPServer \<Rightarrow> response_writer \<Rightarrow> string \<Rightarrow> get_state" where
  "get_init s w sessionID =
     \<lparr>gs_w = w, gs_srv = s, gs_sessionID = sessionID, gs_channel = [], gs_writeChan = [],
      gs_done = False, gs_ctxDone = False, gs_main = GLoop, gs_forwarder = FSelect,
      gs_pinger = (if listenHeartbeatInterval s > 0 then PSelect else PNone)\<rparr>"

text \<open>
  \<^verbatim>\<open>handleGet\<close>. \<open>Inl\<close> is a request answered without a stream; \<open>Inr\<close> is the state the
  goroutines have reached under the schedule. \<^verbatim>\<open>UnregisterSession\<close> is deferred: it is
  called when the handler returns.
\<close>

definition handleGet ::
  "environment \<Rightarrow> StreamableHTTPServer \<Rightarrow> response_writer \<Rightarrow> request \<Rightarrow> get_label list
     \<Rightarrow> (response_writer + get_state) \<times> call list" where
  "handleGet env s w r sched =
     (let sessionID0 = Header_Get (req_header r) headerKeySessionID;
          sessionID = (if sessionID0 = [] then uuid_New env else sessionID0);
          params = query_params (req_query r)
      in case engine_RegisterSession env sessionID of
           Some err \<Rightarrow>
             (Inl (http_Error w (''Session registration failed: '' @ err) StatusBadRequest),
              [CallRegisterSession sessionID])
         | None \<Rightarrow>
             (let w1 = WriteHeader StatusOK
                         (Header_Set ''Connection'' ''keep-alive''
                           (Header_Set ''Cache-Control'' ''no-cache''
                             (Header_Set ''Content-Type'' ''text/event-stream'' w)))
              in if \<not> rw_flusher w
                 then (Inl (http_Error w1 ''Streaming unsupported'' StatusInternalServerError),
                       [CallRegisterSession sessionID, CallUnregisterSession sessionID])
                 else
                   (let st = get_run sched (get_init s w1 sessionID)
                    in (Inr st,
                        CallRegisterSession sessionID
                          # (if gs_main st = GReturned
                             then [CallUnregisterSession sessionID] else [])))))"

text \<open>The ids of the \<^verbatim>\<open>ping\<close> requests among payloads, and among the events of a body.\<close>

fun ping_ids :: "payload list \<Rightarrow> int list" where
  "ping_ids [] = []"
| "ping_ids (PingRequest ident # ps) = ident # ping_ids ps"
| "ping_ids (Notif nt # ps) = ping_ids ps"
| "ping_ids (Resp r # ps) = ping_ids ps"
| "ping_ids (JSONRPCError ident code message # ps) = ping_ids ps"

fun event_payloads :: "chunk list \<Rightarrow> payload list" where
  "event_payloads [] = []"
| "event_payloads (SSEEvent p # cs) = p # event_payloads cs"
| "event_payloads (JSONDoc p # cs) = event_payloads cs"
| "event_payloads (Text t # cs) = event_payloads cs"

text \<open>The value of a session's request counter, 0 when it has no entry yet.\<close>

definition counter_of :: "StreamableHTTPServer \<Rightarrow> string \<Rightarrow> int" where
  "counter_of s sessionID = (case sessionRequestIDs s sessionID of None \<Rightarrow> 0 | Some c \<Rightarrow> c)"

text \<open>\<open>n\<close> successive calls of \<^verbatim>\<open>nextRequestID\<close> for one session: the values, then the server.\<close>

fun nextRequestIDs :: "nat \<Rightarrow> StreamableHTTPServer \<Rightarrow> string \<Rightarrow> int list \<times> StreamableHTTPServer" where
  "nextRequestIDs 0 s sessionID = ([], s)"
| "nextRequestIDs (Suc n) s sessionID =
     (let (v, s1) = nextRequestID s sessionID;
          (vs, s2) = nextRequestIDs n s1 sessionID
      in (v # vs, s2))"

text \<open>A GET state with another session-id policy in its server.\<close>

definition with_manager :: "SessionIdManager \<Rightarrow> get_state \<Rightarrow> get_state" where
  "with_manager manager st = st\<lparr>gs_srv := (gs_srv st)\<lparr>sessionIdManager := manager\<rparr>\<rparr>"

subsection \<open>The UUID library\<close>

text \<open>
  \<^verbatim>\<open>github.com/google/uuid\<close> is imported by the file and is not among the repository's
  sources. The two functions the policy calls are modelled from the library.

  The canonical text of a UUID, \<^verbatim>\<open>xxxxxxxx-xxxx-xxxx-xxxx-xxxxxxxxxxxx\<close>: 36 characters,
  \<^verbatim>\<open>-\<close> at the offsets 8, 13, 18 and 23, and at every other offset a character the
  library's \<^verbatim>\<open>xtob\<close> decodes, that is a hexadecimal digit in either case.
  \<open>uuid_shape i s\<close> checks a text that starts at offset \<open>i\<close>.
\<close>

fun uuid_shape :: "nat \<Rightarrow> string \<Rightarrow> bool" where
  "uuid_shape i [] = (i = 36)"
| "uuid_shape i (c # cs) =
     ((if i = 8 \<or> i = 13 \<or> i = 18 \<or> i = 23 then c = CHR ''-''
       else c \<in> set ''0123456789abcdefABCDEF'') \<and> uuid_shape (Suc i) cs)"






subsection \<open>Example instances\<close>

text \<open>
  Concrete instances on which the theorems below are evaluated: the checker
  \<open>uuid_shape 0\<close> of the canonical text in the place of \<^verbatim>\<open>uuid.Parse\<close>, two custom
  policies, a server with entries for one session, a request, and an environment whose
  engine follows a given script.
\<close>

definition failing_policy :: SessionIdManager where
  "failing_policy =
     \<lparr>Generate = (\<lambda>u. u),
      Validate = (\<lambda>_. (False, Some ''lookup failed'')),
      Terminate = (\<lambda>_. (False, Some ''store down''))\<rparr>"

definition strict_policy :: SessionIdManager where
  "strict_policy =
     \<lparr>Generate = (\<lambda>u. u),
      Validate = (\<lambda>_. (True, None)),
      Terminate = (\<lambda>_. (True, None))\<rparr>"

definition example_server :: "SessionIdManager \<Rightarrow> StreamableHTTPServer" where
  "example_server manager =
     \<lparr>sessionTools = [''s1'' \<mapsto> [''echo'' \<mapsto> ''echo tool'']],
      sessionRequestIDs = [''s1'' \<mapsto> 3],
      sessionLogLevels = [''s1'' \<mapsto> LoggingLevelDebug],
      sessionIdManager = manager,
      listenHeartbeatInterval = 0\<rparr>"

definition example_env :: "session_op list \<times> string option \<Rightarrow> environment" where
  "example_env script =
     \<lparr>ParseMediaType =
        (\<lambda>v. if v = [] then None else Some (takeWhile (\<lambda>c. c \<noteq> CHR '';'') v)),
      Unmarshal_Method =
        (\<lambda>raw. if raw = ''<initialize>'' then Some ''initialize''
                else if raw = ''<tools/call>'' then Some ''tools/call''
                else if raw = ''<notifications/cancelled>'' then Some ''notifications/cancelled''
                else None),
      uuid_New = ''123e4567-e89b-42d3-a456-426614174000'',
      engine_HandleMessage = (\<lambda>sessionID params hdr raw. script),
      engine_RegisterSession = (\<lambda>sessionID. None)\<rparr>"

definition example_request :: "string \<Rightarrow> string \<Rightarrow> (string + string) \<Rightarrow> string option \<Rightarrow> request" where
  "example_request verb contentType body sid =
     \<lparr>req_method = verb,
      req_header = (Map.empty(''Content-Type'' \<mapsto> contentType))(headerKeySessionID := sid),
      req_body = body,
      req_query = Map.empty\<rparr>"


text \<open>
  The state a POST with media type \<^verbatim>\<open>application/json\<close> reaches on the example
  environment, for a session header, a body, an engine script, a server and a schedule.
\<close>

definition example_post ::
  "string option \<Rightarrow> string \<Rightarrow> session_op list \<times> string option \<Rightarrow> StreamableHTTPServer
     \<Rightarrow> post_label list \<Rightarrow> post_state" where
  "example_post hdr raw script s sched =
     projr (fst (handlePost (example_env script) s (new_writer True)
                   (example_request ''POST'' ''application/json'' (Inr raw) hdr) sched))"

text \<open>
  What a GET reaches on the example environment (whose \<^verbatim>\<open>RegisterSession\<close> accepts every
  session), for a session header, a server and a schedule.
\<close>

definition example_get ::
  "string option \<Rightarrow> StreamableHTTPServer \<Rightarrow> get_label list \<Rightarrow> response_writer + get_state" where
  "example_get hdr s sched =
     fst (handleGet (example_env ([], None)) s (new_writer True)
            (example_request ''GET'' [] (Inr []) hdr) sched)"

subsection \<open>What holds in every state of a POST\<close>

text \<open>The notifications a script sends, in order.\<close>

fun notifs_of :: "session_op list \<Rightarrow> string list" where
  "notifs_of [] = []"
| "notifs_of (SendNotification nt # ops) = nt # notifs_of ops"
| "notifs_of (UpgradeToSSE # ops) = notifs_of ops"
| "notifs_of (SetLogLevel level # ops) = notifs_of ops"
| "notifs_of (SetSessionTools ts # ops) = notifs_of ops"














subsection \<open>What holds in every state of a GET\<close>

text \<open>
  The message the pinger has built and not yet sent; and the invariant of the heartbeat
  ids, for the counter value \<open>c0\<close> of the session when the stream starts: after \<open>m\<close> ticks
  the counter is \<open>c0 + m\<close>, the ids written are \<open>c0 + 1\<close> to \<open>c0 + a\<close>, and the ids still
  in \<^verbatim>\<open>writeChan\<close> or in the pinger's hand are \<open>c0 + a + 1\<close> to \<open>c0 + q\<close>, where \<open>q\<close> is
  \<open>m\<close> as long as the pinger has not returned.
\<close>

fun hand_ping :: "pinger_pc \<Rightarrow> payload list" where
  "hand_ping (PSend message) = [message]"
| "hand_ping PNone = []"
| "hand_ping PSelect = []"
| "hand_ping PReturned = []"

definition ping_inv :: "int \<Rightarrow> nat \<Rightarrow> nat \<Rightarrow> nat \<Rightarrow> get_state \<Rightarrow> bool" where
  "ping_inv c0 a q m st =
     (a \<le> q \<and> q \<le> m
      \<and> counter_of (gs_srv st) (gs_sessionID st) = c0 + int m
      \<and> ping_ids (event_payloads (rw_body (gs_w st))) = [c0 + 1..c0 + int a]
      \<and> ping_ids (gs_writeChan st @ hand_ping (gs_pinger st)) = [c0 + int a + 1..c0 + int q]
      \<and> (gs_pinger st = PReturned \<or> q = m))"

section \<open>Properties\<close>

subsection \<open>Unfolding and the response writer\<close>

lemmas status_defs = StatusOK_def StatusAccepted_def StatusBadRequest_def StatusNotFound_def
  StatusMethodNotAllowed_def StatusInternalServerError_def

lemmas writer_defs = new_writer_def Header_Set_def WriteHeader_def Write_def http_Error_def
  writeSSEEvent_def writeJSONRPCError_def upgrade_headers_def

lemma status_WriteHeader_fresh [simp]:
  "rw_status w = None \<Longrightarrow> rw_status (WriteHeader c w) = Some c"
  by (simp add: WriteHeader_def)

lemma http_Error_fresh:
  "rw_status (http_Error (new_writer fl) msg c) = Some c
   \<and> rw_body (http_Error (new_writer fl) msg c) = [Text msg]
   \<and> rw_sent (http_Error (new_writer fl) msg c) ''Content-Type'' = Some ''text/plain; charset=utf-8''"
  by (simp add: writer_defs)

lemma writeJSONRPCError_fresh:
  "rw_status (writeJSONRPCError (new_writer fl) i c m) = Some 400
   \<and> rw_body (writeJSONRPCError (new_writer fl) i c m) = [JSONDoc (JSONRPCError i c m)]
   \<and> rw_sent (writeJSONRPCError (new_writer fl) i c m) ''Content-Type'' = Some ''application/json''"
  by (simp add: writer_defs status_defs)

lemmas example_defs = example_env_def example_request_def example_server_def
  failing_policy_def strict_policy_def StatelessSessionIdManager_def
  InsecureStatefulSessionIdManager_def InsecureStateful_Validate_def
  InsecureStateful_Generate_def idPrefix_def HasPrefix_def headerKeySessionID_def
  Header_Get_def

lemma pair3: "x = (fst x, fst (snd x), snd (snd x))"
  by simp


lemmas post_defs = handlePost_def post_init_def post_step_def main_step_def reader_step_def
  session_do_def write_response_def Let_def query_params_def logLevels_set_def tools_set_def

subsection \<open>The insecure stateful policy\<close>








lemma uuid_shape_dash:
  "i = 8 \<or> i = 13 \<or> i = 18 \<or> i = 23 \<Longrightarrow>
     uuid_shape i (CHR ''-'' # ys) = uuid_shape (Suc i) ys"
  by simp






subsection \<open>DELETE\<close>

text \<open>
  Claim C6. A DELETE on a fresh writer: an error of \<open>Terminate\<close> gives status 500, a
  refusal gives 405, and otherwise the tool, log-level and request-counter entries of the
  session id are removed and the status is 200. Under the stateless and the insecure
  stateful policy a second DELETE of the same request also gives 200, and the entries
  are absent after the first and after the second call.
\<close>

theorem handleDelete_responses:
  assumes "handleDelete s (new_writer fl) r = (w1, s1, c1)"
    and "sid = Header_Get (req_header r) headerKeySessionID"
  shows "(snd (Terminate (sessionIdManager s) sid) \<noteq> None \<longrightarrow>
            rw_status w1 = Some 500 \<and> s1 = s)
       \<and> (snd (Terminate (sessionIdManager s) sid) = None
            \<and> fst (Terminate (sessionIdManager s) sid) \<longrightarrow>
            rw_status w1 = Some 405 \<and> s1 = s)
       \<and> (snd (Terminate (sessionIdManager s) sid) = None
            \<and> \<not> fst (Terminate (sessionIdManager s) sid) \<longrightarrow>
            rw_status w1 = Some 200 \<and> sessionTools s1 sid = None
            \<and> sessionLogLevels s1 sid = None \<and> sessionRequestIDs s1 sid = None)
       \<and> (sessionIdManager s = StatelessSessionIdManager
            \<or> sessionIdManager s = InsecureStatefulSessionIdManager parse \<longrightarrow>
            (\<forall>w2 s2 c2. handleDelete s1 (new_writer fl) r = (w2, s2, c2) \<longrightarrow>
               rw_status w1 = Some 200 \<and> rw_status w2 = Some 200
               \<and> sessionTools s1 sid = None \<and> sessionLogLevels s1 sid = None
               \<and> sessionRequestIDs s1 sid = None
               \<and> sessionTools s2 sid = None \<and> sessionLogLevels s2 sid = None
               \<and> sessionRequestIDs s2 sid = None))"
proof -
  obtain na er where t: "Terminate (sessionIdManager s) sid = (na, er)"
    by (cases "Terminate (sessionIdManager s) sid")
  have e500: "er \<noteq> None \<Longrightarrow> rw_status w1 = Some 500 \<and> s1 = s"
    using assms t by (auto simp: handleDelete_def http_Error_fresh status_defs Let_def)
  have e405: "er = None \<Longrightarrow> na \<Longrightarrow> rw_status w1 = Some 405 \<and> s1 = s"
    using assms t by (auto simp: handleDelete_def http_Error_fresh status_defs Let_def)
  have ok: "er = None \<Longrightarrow> \<not> na \<Longrightarrow>
      rw_status w1 = Some 200 \<and> sessionTools s1 sid = None
      \<and> sessionLogLevels s1 sid = None \<and> sessionRequestIDs s1 sid = None
      \<and> sessionIdManager s1 = sessionIdManager s"
    using assms t
    by (auto simp: handleDelete_def status_defs new_writer_def tools_delete_def
        logLevels_delete_def Let_def WriteHeader_def)
  have builtin: "er = None \<and> \<not> na"
    if "sessionIdManager s = StatelessSessionIdManager
        \<or> sessionIdManager s = InsecureStatefulSessionIdManager parse"
    using that t
    by (auto simp: StatelessSessionIdManager_def InsecureStatefulSessionIdManager_def)
  have again: "rw_status w2 = Some 200 \<and> sessionTools s2 sid = None
      \<and> sessionLogLevels s2 sid = None \<and> sessionRequestIDs s2 sid = None"
    if "er = None" "\<not> na" "handleDelete s1 (new_writer fl) r = (w2, s2, c2)" for w2 s2 c2
    using that ok [OF that(1,2)] assms(2) t
    by (auto simp: handleDelete_def status_defs new_writer_def tools_delete_def
        logLevels_delete_def Let_def WriteHeader_def)
  show ?thesis
    using e500 e405 ok builtin again t by auto
qed

text \<open>
  The three outcomes on a server that holds entries for the session \<^verbatim>\<open>s1\<close>.
\<close>

theorem handleDelete_responses_witness:
  "snd (Terminate failing_policy ''s1'') \<noteq> None
   \<and> rw_status (fst (handleDelete (example_server failing_policy) (new_writer True)
         (example_request ''DELETE'' [] (Inr []) (Some ''s1'')))) = Some 500
   \<and> snd (Terminate strict_policy ''s1'') = None \<and> fst (Terminate strict_policy ''s1'')
   \<and> rw_status (fst (handleDelete (example_server strict_policy) (new_writer True)
         (example_request ''DELETE'' [] (Inr []) (Some ''s1'')))) = Some 405
   \<and> rw_status (fst (handleDelete (example_server StatelessSessionIdManager) (new_writer True)
         (example_request ''DELETE'' [] (Inr []) (Some ''s1'')))) = Some 200
   \<and> sessionRequestIDs (fst (snd (handleDelete (example_server StatelessSessionIdManager)
         (new_writer True) (example_request ''DELETE'' [] (Inr []) (Some ''s1''))))) ''s1'' = None
   \<and> rw_status (fst (handleDelete
         (fst (snd (handleDelete (example_server StatelessSessionIdManager)
            (new_writer True) (example_request ''DELETE'' [] (Inr []) (Some ''s1'')))))
         (new_writer True) (example_request ''DELETE'' [] (Inr []) (Some ''s1'')))) = Some 200"
proof -
  let ?r = "example_request ''DELETE'' [] (Inr []) (Some ''s1'')"
  have sid: "''s1'' = Header_Get (req_header ?r) headerKeySessionID"
    by (simp add: example_defs)
  have a: "snd (Terminate (sessionIdManager (example_server failing_policy)) ''s1'') \<noteq> None"
    by (simp add: example_defs)
  have b: "snd (Terminate (sessionIdManager (example_server strict_policy)) ''s1'') = None
      \<and> fst (Terminate (sessionIdManager (example_server strict_policy)) ''s1'')"
    by (simp add: example_defs)
  have c: "sessionIdManager (example_server StatelessSessionIdManager) = StatelessSessionIdManager
      \<and> snd (Terminate StatelessSessionIdManager ''s1'') = None
      \<and> \<not> fst (Terminate StatelessSessionIdManager ''s1'')"
    by (simp add: example_defs)
  note t1 = handleDelete_responses [OF pair3 sid, of "example_server failing_policy" True]
  note t2 = handleDelete_responses [OF pair3 sid, of "example_server strict_policy" True]
  note t3 = handleDelete_responses [OF pair3 sid,
      of "example_server StatelessSessionIdManager" True]
  have r1: "rw_status (fst (handleDelete (example_server failing_policy) (new_writer True) ?r))
      = Some 500"
    using t1 a by blast
  have r2: "rw_status (fst (handleDelete (example_server strict_policy) (new_writer True) ?r))
      = Some 405"
    using t2 b by blast
  have r3: "rw_status (fst (handleDelete (example_server StatelessSessionIdManager)
         (new_writer True) ?r)) = Some 200
     \<and> sessionRequestIDs (fst (snd (handleDelete (example_server StatelessSessionIdManager)
         (new_writer True) ?r))) ''s1'' = None"
    using t3 c by simp
  have r4: "rw_status (fst (handleDelete
         (fst (snd (handleDelete (example_server StatelessSessionIdManager)
            (new_writer True) ?r))) (new_writer True) ?r)) = Some 200"
    using t3 c pair3 by blast
  show ?thesis
    using r1 r2 r3 r4 a b c by (simp add: example_server_def)
qed

subsection \<open>POST: malformed input\<close>

text \<open>
  Claim C2 as the code has it. A POST whose media type is not \<^verbatim>\<open>application/json\<close> (or
  whose \<^verbatim>\<open>Content-Type\<close> does not parse) is answered by \<^verbatim>\<open>http.Error\<close>: status 400, a
  plain-text body, no JSON-RPC envelope. With the right media type, an unreadable body or
  a body that \<^verbatim>\<open>json.Unmarshal\<close> rejects is answered by the JSON-RPC parse error: code
  -32700, id null, status 400, \<^verbatim>\<open>Content-Type: application/json\<close>. In all three cases no
  call is made to the engine (nor to the policy).
\<close>

theorem handlePost_malformed:
  "(ParseMediaType env (Header_Get (req_header r) ''Content-Type'') \<noteq> Some ''application/json''
      \<longrightarrow> (\<exists>w'. handlePost env s (new_writer fl) r sched = (Inl w', [])
             \<and> rw_status w' = Some 400
             \<and> rw_sent w' ''Content-Type'' = Some ''text/plain; charset=utf-8''
             \<and> rw_body w' = [Text invalid_content_type]))
   \<and> (ParseMediaType env (Header_Get (req_header r) ''Content-Type'') = Some ''application/json''
        \<and> ((\<exists>e. req_body r = Inl e)
            \<or> (\<exists>raw. req_body r = Inr raw \<and> Unmarshal_Method env raw = None))
      \<longrightarrow> (\<exists>w' msg. handlePost env s (new_writer fl) r sched = (Inl w', [])
             \<and> rw_status w' = Some 400
             \<and> rw_sent w' ''Content-Type'' = Some ''application/json''
             \<and> rw_body w' = [JSONDoc (JSONRPCError None (- 32700) msg)]))"
proof (intro conjI impI)
  assume "ParseMediaType env (Header_Get (req_header r) ''Content-Type'') \<noteq> Some ''application/json''"
  then show "\<exists>w'. handlePost env s (new_writer fl) r sched = (Inl w', [])
             \<and> rw_status w' = Some 400
             \<and> rw_sent w' ''Content-Type'' = Some ''text/plain; charset=utf-8''
             \<and> rw_body w' = [Text invalid_content_type]"
    by (auto simp: handlePost_def http_Error_fresh status_defs split: option.splits)
next
  assume a: "ParseMediaType env (Header_Get (req_header r) ''Content-Type'') = Some ''application/json''
        \<and> ((\<exists>e. req_body r = Inl e)
            \<or> (\<exists>raw. req_body r = Inr raw \<and> Unmarshal_Method env raw = None))"
  show "\<exists>w' msg. handlePost env s (new_writer fl) r sched = (Inl w', [])
             \<and> rw_status w' = Some 400
             \<and> rw_sent w' ''Content-Type'' = Some ''application/json''
             \<and> rw_body w' = [JSONDoc (JSONRPCError None (- 32700) msg)]"
  proof (cases "req_body r")
    case (Inl e)
    with a show ?thesis
      by (simp add: handlePost_def writeJSONRPCError_fresh PARSE_ERROR_def)
  next
    case (Inr raw)
    with a show ?thesis
      by (simp add: handlePost_def writeJSONRPCError_fresh PARSE_ERROR_def)
  qed
qed

text \<open>
  The three malformed inputs on the example server: a POST with \<^verbatim>\<open>text/plain\<close>, one whose
  body cannot be read, and one whose body is not JSON.
\<close>

theorem handlePost_malformed_witness:
  "ParseMediaType (example_env ([], None))
       (Header_Get (req_header (example_request ''POST'' ''text/plain'' (Inr ''<tools/call>'') None))
          ''Content-Type'') \<noteq> Some ''application/json''
   \<and> (\<exists>w'. handlePost (example_env ([], None)) (example_server StatelessSessionIdManager)
              (new_writer True)
              (example_request ''POST'' ''text/plain'' (Inr ''<tools/call>'') None) []
            = (Inl w', [])
          \<and> rw_status w' = Some 400
          \<and> rw_body w' = [Text invalid_content_type])
   \<and> (\<exists>w' msg. handlePost (example_env ([], None)) (example_server StatelessSessionIdManager)
              (new_writer True)
              (example_request ''POST'' ''application/json'' (Inl ''unexpected EOF'') None) []
            = (Inl w', [])
          \<and> rw_status w' = Some 400
          \<and> rw_body w' = [JSONDoc (JSONRPCError None (- 32700) msg)])
   \<and> (\<exists>w' msg. handlePost (example_env ([], None)) (example_server StatelessSessionIdManager)
              (new_writer True)
              (example_request ''POST'' ''application/json'' (Inr ''{oops'') None) []
            = (Inl w', [])
          \<and> rw_status w' = Some 400
          \<and> rw_body w' = [JSONDoc (JSONRPCError None (- 32700) msg)])"
proof -
  let ?env = "example_env ([], None)"
  let ?s = "example_server StatelessSessionIdManager"
  let ?r1 = "example_request ''POST'' ''text/plain'' (Inr ''<tools/call>'') None"
  let ?r2 = "example_request ''POST'' ''application/json'' (Inl ''unexpected EOF'') None"
  let ?r3 = "example_request ''POST'' ''application/json'' (Inr ''{oops'') None"
  have h1: "ParseMediaType ?env (Header_Get (req_header ?r1) ''Content-Type'')
              \<noteq> Some ''application/json''"
    by (simp add: example_defs)
  have h2: "ParseMediaType ?env (Header_Get (req_header ?r2) ''Content-Type'')
              = Some ''application/json''
            \<and> ((\<exists>e. req_body ?r2 = Inl e)
                \<or> (\<exists>raw. req_body ?r2 = Inr raw \<and> Unmarshal_Method ?env raw = None))"
    by (simp add: example_defs)
  have h3: "ParseMediaType ?env (Header_Get (req_header ?r3) ''Content-Type'')
              = Some ''application/json''
            \<and> ((\<exists>e. req_body ?r3 = Inl e)
                \<or> (\<exists>raw. req_body ?r3 = Inr raw \<and> Unmarshal_Method ?env raw = None))"
    by (simp add: example_defs)
  from handlePost_malformed [of ?env ?r1 ?s True "[]"] h1
  have c1: "\<exists>w'. handlePost ?env ?s (new_writer True) ?r1 [] = (Inl w', [])
          \<and> rw_status w' = Some 400 \<and> rw_body w' = [Text invalid_content_type]"
    by blast
  from handlePost_malformed [of ?env ?r2 ?s True "[]"] h2
  have c2: "\<exists>w' msg. handlePost ?env ?s (new_writer True) ?r2 [] = (Inl w', [])
          \<and> rw_status w' = Some 400
          \<and> rw_body w' = [JSONDoc (JSONRPCError None (- 32700) msg)]"
    by blast
  from handlePost_malformed [of ?env ?r3 ?s True "[]"] h3
  have c3: "\<exists>w' msg. handlePost ?env ?s (new_writer True) ?r3 [] = (Inl w', [])
          \<and> rw_status w' = Some 400
          \<and> rw_body w' = [JSONDoc (JSONRPCError None (- 32700) msg)]"
    by blast
  from h1 c1 c2 c3 show ?thesis by blast
qed

text \<open>
  Claim C2 as stated fails for the media type: the POST with \<^verbatim>\<open>text/plain\<close> is answered in
  plain text, with the content type of \<^verbatim>\<open>http.Error\<close> and no JSON document in the body.
\<close>

theorem handlePost_bad_media_type_not_jsonrpc:
  "fst (handlePost (example_env ([], None)) (example_server StatelessSessionIdManager)
          (new_writer True)
          (example_request ''POST'' ''text/plain'' (Inr ''<tools/call>'') None) [])
     = Inl \<lparr>rw_header = [''Content-Type'' \<mapsto> ''text/plain; charset=utf-8'',
                          ''X-Content-Type-Options'' \<mapsto> ''nosniff''],
            rw_status = Some 400,
            rw_sent = [''Content-Type'' \<mapsto> ''text/plain; charset=utf-8'',
                       ''X-Content-Type-Options'' \<mapsto> ''nosniff''],
            rw_body = [Text invalid_content_type],
            rw_flusher = True\<rparr>"
  by (simp add: handlePost_def example_defs writer_defs status_defs)
subsection \<open>POST: the session id of a request that is not initialize\<close>

text \<open>
  Claim C3. For a POST that carries JSON with a method other than \<^verbatim>\<open>initialize\<close>, the
  value of the \<^verbatim>\<open>Mcp-Session-Id\<close> header is what \<open>Validate\<close> is called with. If it returns
  an error, the answer is 400 with the text \<^verbatim>\<open>Invalid session ID\<close>; if it reports
  terminated, the answer is 404 with the text \<^verbatim>\<open>Session terminated\<close>. In both cases the
  only call made is the one to \<open>Validate\<close>: the engine is not invoked.
\<close>

theorem handlePost_session_rejected:
  assumes "ParseMediaType env (Header_Get (req_header r) ''Content-Type'')
             = Some ''application/json''"
    and "req_body r = Inr raw"
    and "Unmarshal_Method env raw = Some method"
    and "method \<noteq> ''initialize''"
    and "sid = Header_Get (req_header r) headerKeySessionID"
  shows "hd (snd (handlePost env s (new_writer fl) r sched)) = CallValidate sid
       \<and> (snd (Validate (sessionIdManager s) sid) \<noteq> None \<longrightarrow>
            (\<exists>w'. handlePost env s (new_writer fl) r sched = (Inl w', [CallValidate sid])
                 \<and> rw_status w' = Some 400 \<and> rw_body w' = [Text ''Invalid session ID'']))
       \<and> (snd (Validate (sessionIdManager s) sid) = None
            \<and> fst (Validate (sessionIdManager s) sid) \<longrightarrow>
            (\<exists>w'. handlePost env s (new_writer fl) r sched = (Inl w', [CallValidate sid])
                 \<and> rw_status w' = Some 404 \<and> rw_body w' = [Text ''Session terminated'']))"
proof -
  obtain t e where v: "Validate (sessionIdManager s) sid = (t, e)"
    by (cases "Validate (sessionIdManager s) sid")
  show ?thesis
    using assms v
    by (auto simp: handlePost_def Let_def http_Error_fresh status_defs)
qed

text \<open>
  A \<^verbatim>\<open>tools/call\<close> POST with the header \<^verbatim>\<open>abc\<close> under the insecure stateful policy (an
  error), and with the header \<^verbatim>\<open>s1\<close> under a policy that reports every session terminated.
\<close>

theorem handlePost_session_rejected_witness:
  "snd (Validate (InsecureStatefulSessionIdManager (uuid_shape 0)) ''abc'') \<noteq> None
   \<and> (\<exists>w'. handlePost (example_env ([], Some ''result''))
              (example_server (InsecureStatefulSessionIdManager (uuid_shape 0)))
              (new_writer True)
              (example_request ''POST'' ''application/json'' (Inr ''<tools/call>'') (Some ''abc''))
              [MainStep]
            = (Inl w', [CallValidate ''abc''])
          \<and> rw_status w' = Some 400 \<and> rw_body w' = [Text ''Invalid session ID''])
   \<and> snd (Validate strict_policy ''s1'') = None \<and> fst (Validate strict_policy ''s1'')
   \<and> (\<exists>w'. handlePost (example_env ([], Some ''result'')) (example_server strict_policy)
              (new_writer True)
              (example_request ''POST'' ''application/json'' (Inr ''<tools/call>'') (Some ''s1''))
              [MainStep]
            = (Inl w', [CallValidate ''s1''])
          \<and> rw_status w' = Some 404 \<and> rw_body w' = [Text ''Session terminated''])"
proof -
  let ?env = "example_env ([], Some ''result'')"
  let ?r1 = "example_request ''POST'' ''application/json'' (Inr ''<tools/call>'') (Some ''abc'')"
  let ?r2 = "example_request ''POST'' ''application/json'' (Inr ''<tools/call>'') (Some ''s1'')"
  let ?s1 = "example_server (InsecureStatefulSessionIdManager (uuid_shape 0))"
  let ?s2 = "example_server strict_policy"
  have ct: "ParseMediaType ?env (Header_Get (req_header ?r1) ''Content-Type'')
              = Some ''application/json''"
       "ParseMediaType ?env (Header_Get (req_header ?r2) ''Content-Type'')
              = Some ''application/json''"
    by (simp_all add: example_defs)
  have bd: "req_body ?r1 = Inr ''<tools/call>''" "req_body ?r2 = Inr ''<tools/call>''"
    by (simp_all add: example_defs)
  have um: "Unmarshal_Method ?env ''<tools/call>'' = Some ''tools/call''"
    by (simp add: example_defs)
  have ni: "''tools/call'' \<noteq> ''initialize''" by simp
  have sid: "''abc'' = Header_Get (req_header ?r1) headerKeySessionID"
            "''s1'' = Header_Get (req_header ?r2) headerKeySessionID"
    by (simp_all add: example_defs)
  have v1: "snd (Validate (sessionIdManager ?s1) ''abc'') \<noteq> None"
    by (simp add: example_defs)
  have v2: "snd (Validate (sessionIdManager ?s2) ''s1'') = None
            \<and> fst (Validate (sessionIdManager ?s2) ''s1'')"
    by (simp add: example_defs)
  note t1 = handlePost_session_rejected [OF ct(1) bd(1) um ni sid(1), of ?s1 True "[MainStep]"]
  note t2 = handlePost_session_rejected [OF ct(2) bd(2) um ni sid(2), of ?s2 True "[MainStep]"]
  have c1: "\<exists>w'. handlePost ?env ?s1 (new_writer True) ?r1 [MainStep]
              = (Inl w', [CallValidate ''abc''])
          \<and> rw_status w' = Some 400 \<and> rw_body w' = [Text ''Invalid session ID'']"
    using t1 v1 by blast
  have c2: "\<exists>w'. handlePost ?env ?s2 (new_writer True) ?r2 [MainStep]
              = (Inl w', [CallValidate ''s1''])
          \<and> rw_status w' = Some 404 \<and> rw_body w' = [Text ''Session terminated'']"
    using t2 v2 by blast
  have v1': "snd (Validate (InsecureStatefulSessionIdManager (uuid_shape 0)) ''abc'') \<noteq> None"
    using v1 by (simp add: example_server_def)
  have v2': "snd (Validate strict_policy ''s1'') = None \<and> fst (Validate strict_policy ''s1'')"
    using v2 by (simp add: example_server_def)
  from c1 c2 v1' v2' show ?thesis by blast
qed
subsection \<open>POST: the framing of the final response\<close>

text \<open>
  The final write looks at the session's flag only: it frames the response as an event
  when the flag is set and encodes it as a JSON document otherwise, whatever
  \<^verbatim>\<open>upgradedHeader\<close> is.
\<close>

lemma write_response_framing:
  "rw_body (ps_w (write_response i response s))
     = rw_body (ps_w s)
         @ [if ps_upgradeToSSE s then SSEEvent (Resp response) else JSONDoc (Resp response)]"
  by (simp add: write_response_def writer_defs Let_def split: option.splits)

text \<open>
  Claim C1, evaluated where the code departs from it. The engine sends one notification on
  the session channel and does not call \<^verbatim>\<open>UpgradeToSSEWhenReceiveNotification\<close>; the
  notification goroutine writes the event-stream headers and the event; then the engine
  returns its response. The final branch tests \<^verbatim>\<open>session.upgradeToSSE\<close> only, so the
  response is encoded as a bare JSON document after the event, on a response whose
  headers went out as \<^verbatim>\<open>text/event-stream\<close>: the handler has returned, the headers were
  written by the notification goroutine, the flag is unset, and the body ends with a
  JSON document that is not an event frame.
\<close>

theorem handlePost_notified_response_not_framed:
  "fst (handlePost (example_env ([SendNotification ''progress 1''], Some ''result''))
          (example_server StatelessSessionIdManager) (new_writer True)
          (example_request ''POST'' ''application/json'' (Inr ''<tools/call>'') None)
          [MainStep, ReaderRecv, ReaderStep, ReaderStep, ReaderStep,
           MainStep, MainStep, MainStep, MainStep])
   = Inr \<lparr>ps_w =
            \<lparr>rw_header = [''Content-Type'' \<mapsto> ''application/json'',
                          ''Connection'' \<mapsto> ''keep-alive'',
                          ''Cache-Control'' \<mapsto> ''no-cache''],
             rw_status = Some 200,
             rw_sent = [''Content-Type'' \<mapsto> ''text/event-stream'',
                        ''Connection'' \<mapsto> ''keep-alive'',
                        ''Cache-Control'' \<mapsto> ''no-cache''],
             rw_body = [SSEEvent (Notif ''progress 1''), JSONDoc (Resp ''result'')],
             rw_flusher = True\<rparr>,
          ps_srv = example_server StatelessSessionIdManager,
          ps_sessionID = [],
          ps_channel = [],
          ps_upgradeToSSE = False,
          ps_upgradedHeader = True,
          ps_done = True,
          ps_locked = False,
          ps_ctxDone = False,
          ps_main = MReturned,
          ps_reader = RSelect\<rparr>"
  by (simp add: post_defs example_defs writer_defs status_defs fun_upd_twist)
subsection \<open>POST: the session id header of an initialize response\<close>

text \<open>
  The event-stream branch of the final write leaves the \<^verbatim>\<open>Mcp-Session-Id\<close> entry of the
  header map as it was, also for an \<^verbatim>\<open>initialize\<close>.
\<close>

lemma write_response_stream_keeps_session_header:
  "ps_upgradeToSSE s \<Longrightarrow>
     rw_header (ps_w (write_response i response s)) headerKeySessionID
       = rw_header (ps_w s) headerKeySessionID"
  by (simp add: write_response_def writer_defs Let_def headerKeySessionID_def
      split: option.splits)

text \<open>
  Claim C4, evaluated where the code departs from it. Under the insecure stateful policy
  an \<^verbatim>\<open>initialize\<close> whose handler upgrades the response to an event stream and sends one
  notification gets its response as the last event, and the headers that went out hold no
  \<^verbatim>\<open>Mcp-Session-Id\<close>: only the JSON branch of the final write sets it. The same request
  with a handler that neither upgrades nor notifies gets the header
  \<^verbatim>\<open>mcp-session-<uuid>\<close>.
\<close>

theorem handlePost_initialize_stream_without_session_header:
  "fst (handlePost
          (example_env ([UpgradeToSSE, SendNotification ''log line''], Some ''init result''))
          (example_server (InsecureStatefulSessionIdManager (uuid_shape 0))) (new_writer True)
          (example_request ''POST'' ''application/json'' (Inr ''<initialize>'') None)
          [MainStep, MainStep, ReaderRecv, ReaderStep, ReaderStep, ReaderStep,
           MainStep, MainStep, MainStep, MainStep])
   = Inr \<lparr>ps_w =
            \<lparr>rw_header = [''Content-Type'' \<mapsto> ''text/event-stream'',
                          ''Connection'' \<mapsto> ''keep-alive'',
                          ''Cache-Control'' \<mapsto> ''no-cache''],
             rw_status = Some 200,
             rw_sent = [''Content-Type'' \<mapsto> ''text/event-stream'',
                        ''Connection'' \<mapsto> ''keep-alive'',
                        ''Cache-Control'' \<mapsto> ''no-cache''],
             rw_body = [SSEEvent (Notif ''log line''), SSEEvent (Resp ''init result'')],
             rw_flusher = True\<rparr>,
          ps_srv = example_server (InsecureStatefulSessionIdManager (uuid_shape 0)),
          ps_sessionID = ''mcp-session-123e4567-e89b-42d3-a456-426614174000'',
          ps_channel = [],
          ps_upgradeToSSE = True,
          ps_upgradedHeader = True,
          ps_done = True,
          ps_locked = False,
          ps_ctxDone = False,
          ps_main = MReturned,
          ps_reader = RSelect\<rparr>
   \<and> rw_sent (ps_w (projr (fst (handlePost
          (example_env ([UpgradeToSSE, SendNotification ''log line''], Some ''init result''))
          (example_server (InsecureStatefulSessionIdManager (uuid_shape 0))) (new_writer True)
          (example_request ''POST'' ''application/json'' (Inr ''<initialize>'') None)
          [MainStep, MainStep, ReaderRecv, ReaderStep, ReaderStep, ReaderStep,
           MainStep, MainStep, MainStep, MainStep])))) headerKeySessionID = None
   \<and> rw_sent (ps_w (projr (fst (handlePost
          (example_env ([], Some ''init result''))
          (example_server (InsecureStatefulSessionIdManager (uuid_shape 0))) (new_writer True)
          (example_request ''POST'' ''application/json'' (Inr ''<initialize>'') None)
          [MainStep, MainStep, MainStep, MainStep])))) headerKeySessionID
       = Some ''mcp-session-123e4567-e89b-42d3-a456-426614174000''"
  by (simp add: post_defs example_defs writer_defs status_defs)
subsection \<open>POST: session ids under the stateless policy\<close>

lemma post_step_sessionID [simp]: "ps_sessionID (post_step i l s) = ps_sessionID s"
  by (cases l)
     (auto simp: post_step_def main_step_def reader_step_def session_do_def
        write_response_def Let_def
      split: main_pc.splits reader_pc.splits list.splits option.splits session_op.splits)

lemma post_run_sessionID [simp]: "ps_sessionID (post_run i ls s) = ps_sessionID s"
  by (induction ls arbitrary: s) simp_all

lemma post_run_Nil_srv: "ps_srv (post_run i [] (post_init s w sid script)) = s"
  by (simp add: post_init_def)

text \<open>
  Claim C9 as the code has it. Under the stateless policy a POST that passes the
  content-type and JSON checks gets a session whose id is empty for an \<^verbatim>\<open>initialize\<close>
  and is the value of the \<^verbatim>\<open>Mcp-Session-Id\<close> header otherwise (empty when the header is
  absent). The log-level and tool stores are the server's and are keyed by that id: what
  one session sets with \<^verbatim>\<open>SetLogLevel\<close> or \<^verbatim>\<open>SetSessionTools\<close> is what \<^verbatim>\<open>GetLogLevel\<close> and
  \<^verbatim>\<open>GetSessionTools\<close> return at the start of every later POST session on that server with the
  same session id.
\<close>

theorem stateless_post_sessions:
  assumes "sessionIdManager s = StatelessSessionIdManager"
    and "ParseMediaType env (Header_Get (req_header r) ''Content-Type'')
           = Some ''application/json''"
    and "req_body r = Inr raw"
    and "Unmarshal_Method env raw = Some method"
  shows "(\<exists>st. fst (handlePost env s w r sched) = Inr st
            \<and> ps_sessionID st =
                (if method = ''initialize'' then []
                 else Header_Get (req_header r) headerKeySessionID))
       \<and> (\<forall>st st' level env2 w2 r2 st2.
             session_do (SetLogLevel level) st = Some st'
             \<and> fst (handlePost env2 (ps_srv st') w2 r2 []) = Inr st2
             \<and> ps_sessionID st2 = ps_sessionID st
             \<longrightarrow> GetLogLevel st2 = level)
       \<and> (\<forall>st st' ts env2 w2 r2 st2.
             session_do (SetSessionTools ts) st = Some st'
             \<and> fst (handlePost env2 (ps_srv st') w2 r2 []) = Inr st2
             \<and> ps_sessionID st2 = ps_sessionID st
             \<longrightarrow> GetSessionTools st2 = Some ts)"
proof (intro conjI allI impI)
  show "\<exists>st. fst (handlePost env s w r sched) = Inr st
            \<and> ps_sessionID st =
                (if method = ''initialize'' then []
                 else Header_Get (req_header r) headerKeySessionID)"
    using assms
    by (simp add: handlePost_def Let_def StatelessSessionIdManager_def post_init_def)
next
  fix st st' level env2 w2 r2 st2
  assume a: "session_do (SetLogLevel level) st = Some st'
             \<and> fst (handlePost env2 (ps_srv st') w2 r2 []) = Inr st2
             \<and> ps_sessionID st2 = ps_sessionID st"
  then have "ps_srv st2 = ps_srv st'"
    by (auto simp: handlePost_def Let_def post_init_def
        split: option.splits sum.splits if_splits prod.splits)
  with a show "GetLogLevel st2 = level"
    by (auto simp: session_do_def GetLogLevel_def logLevels_get_def logLevels_set_def)
next
  fix st st' ts env2 w2 r2 st2
  assume a: "session_do (SetSessionTools ts) st = Some st'
             \<and> fst (handlePost env2 (ps_srv st') w2 r2 []) = Inr st2
             \<and> ps_sessionID st2 = ps_sessionID st"
  then have "ps_srv st2 = ps_srv st'"
    by (auto simp: handlePost_def Let_def post_init_def
        split: option.splits sum.splits if_splits prod.splits)
  with a show "GetSessionTools st2 = Some ts"
    by (auto simp: session_do_def GetSessionTools_def tools_get_def tools_set_def)
qed

text \<open>
  Two POSTs without a session header on a stateless server: the first is a
  \<^verbatim>\<open>tools/call\<close> whose session sets the log level, the second an \<^verbatim>\<open>initialize\<close>. Both
  sessions have the empty id and the second reads the level the first has set.
\<close>

theorem stateless_post_sessions_witness:
  "sessionIdManager (example_server StatelessSessionIdManager) = StatelessSessionIdManager
   \<and> ps_sessionID (example_post None ''<tools/call>'' ([], Some ''ok'')
                     (example_server StatelessSessionIdManager) []) = []
   \<and> GetLogLevel (example_post None ''<initialize>'' ([], Some ''ok'')
        (ps_srv (the (session_do (SetLogLevel LoggingLevelDebug)
           (example_post None ''<tools/call>'' ([], Some ''ok'')
              (example_server StatelessSessionIdManager) [])))) [])
       = LoggingLevelDebug"
proof -
  let ?s = "example_server StatelessSessionIdManager"
  let ?env = "example_env ([], Some ''ok'')"
  let ?r1 = "example_request ''POST'' ''application/json'' (Inr ''<tools/call>'') None"
  let ?r2 = "example_request ''POST'' ''application/json'' (Inr ''<initialize>'') None"
  let ?st = "example_post None ''<tools/call>'' ([], Some ''ok'') ?s []"
  let ?st' = "the (session_do (SetLogLevel LoggingLevelDebug) ?st)"
  let ?st2 = "example_post None ''<initialize>'' ([], Some ''ok'') (ps_srv ?st') []"
  have h1: "sessionIdManager ?s = StatelessSessionIdManager"
    by (simp add: example_server_def)
  have h2: "ParseMediaType ?env (Header_Get (req_header ?r1) ''Content-Type'')
              = Some ''application/json''"
    by (simp add: example_defs)
  have h3: "req_body ?r1 = Inr ''<tools/call>''"
    by (simp add: example_defs)
  have h4: "Unmarshal_Method ?env ''<tools/call>'' = Some ''tools/call''"
    by (simp add: example_defs)
  note t = stateless_post_sessions [OF h1 h2 h3 h4, of "new_writer True" "[]"]
  have hdr: "Header_Get (req_header ?r1) headerKeySessionID = []"
    by (simp add: example_defs)
  from t hdr have id1: "ps_sessionID ?st = []"
    by (auto simp: example_post_def)
  have do1: "session_do (SetLogLevel LoggingLevelDebug) ?st = Some ?st'"
    by (simp add: session_do_def)
  define s1 where "s1 = ps_srv ?st'"
  have srv': "sessionIdManager s1 = StatelessSessionIdManager"
    by (simp add: s1_def session_do_def example_post_def post_defs example_defs)
  have run2: "fst (handlePost ?env s1 (new_writer True) ?r2 [])
                = Inr (example_post None ''<initialize>'' ([], Some ''ok'') s1 [])"
    using srv'
    by (simp add: example_post_def handlePost_def Let_def example_env_def
        example_request_def Header_Get_def headerKeySessionID_def)
  have id2: "ps_sessionID (example_post None ''<initialize>'' ([], Some ''ok'') s1 []) = []"
    using srv'
    by (simp add: example_post_def handlePost_def Let_def example_env_def
        example_request_def Header_Get_def headerKeySessionID_def post_init_def
        StatelessSessionIdManager_def)
  note share = t [THEN conjunct2, THEN conjunct1, rule_format,
      of LoggingLevelDebug ?st ?st' ?env "new_writer True" ?r2
         "example_post None ''<initialize>'' ([], Some ''ok'') s1 []"]
  have "GetLogLevel (example_post None ''<initialize>'' ([], Some ''ok'') s1 [])
          = LoggingLevelDebug"
  proof (rule share, intro conjI)
    show "session_do (SetLogLevel LoggingLevelDebug) ?st = Some ?st'" by (rule do1)
    show "fst (handlePost ?env (ps_srv ?st') (new_writer True) ?r2 [])
            = Inr (example_post None ''<initialize>'' ([], Some ''ok'') s1 [])"
      using run2 by (simp only: s1_def)
    show "ps_sessionID (example_post None ''<initialize>'' ([], Some ''ok'') s1 [])
            = ps_sessionID ?st"
      using id1 id2 by simp
  qed
  then have "GetLogLevel ?st2 = LoggingLevelDebug"
    by (simp only: s1_def)
  with h1 id1 show ?thesis by simp
qed

text \<open>
  Claim C9 as stated fails: on a stateless server a \<^verbatim>\<open>tools/call\<close> POST that carries
  \<^verbatim>\<open>Mcp-Session-Id: abc\<close> gets the session id \<^verbatim>\<open>abc\<close>, not the empty one, and the log
  level its session sets is not what a later POST without the header reads.
\<close>

theorem stateless_post_header_id_not_shared:
  "ps_sessionID (example_post (Some ''abc'') ''<tools/call>''
       ([SetLogLevel LoggingLevelDebug], Some ''ok'')
       (example_server StatelessSessionIdManager)
       [MainStep, MainStep, MainStep, MainStep, MainStep]) = ''abc''
   \<and> ps_main (example_post (Some ''abc'') ''<tools/call>''
       ([SetLogLevel LoggingLevelDebug], Some ''ok'')
       (example_server StatelessSessionIdManager)
       [MainStep, MainStep, MainStep, MainStep, MainStep]) = MReturned
   \<and> GetLogLevel (example_post (Some ''abc'') ''<tools/call>''
       ([SetLogLevel LoggingLevelDebug], Some ''ok'')
       (example_server StatelessSessionIdManager)
       [MainStep, MainStep, MainStep, MainStep, MainStep]) = LoggingLevelDebug
   \<and> ps_sessionID (example_post None ''<tools/call>'' ([], Some ''ok'')
       (ps_srv (example_post (Some ''abc'') ''<tools/call>''
          ([SetLogLevel LoggingLevelDebug], Some ''ok'')
          (example_server StatelessSessionIdManager)
          [MainStep, MainStep, MainStep, MainStep, MainStep])) []) = []
   \<and> GetLogLevel (example_post None ''<tools/call>'' ([], Some ''ok'')
       (ps_srv (example_post (Some ''abc'') ''<tools/call>''
          ([SetLogLevel LoggingLevelDebug], Some ''ok'')
          (example_server StatelessSessionIdManager)
          [MainStep, MainStep, MainStep, MainStep, MainStep])) []) = LoggingLevelError"
  by (simp add: example_post_def post_defs example_defs writer_defs status_defs
      GetLogLevel_def logLevels_get_def)
subsection \<open>POST: order of the notifications and the final response\<close>

lemma body_Header_Set [simp]: "rw_body (Header_Set k v w) = rw_body w"
  by (simp add: Header_Set_def)

lemma body_WriteHeader [simp]: "rw_body (WriteHeader c w) = rw_body w"
  by (simp add: WriteHeader_def split: option.splits)

lemma body_Write [simp]: "rw_body (Write c w) = rw_body w @ [c]"
  by (simp add: Write_def Let_def)

lemma body_upgrade_headers [simp]: "rw_body (upgrade_headers w) = rw_body w"
  by (simp add: upgrade_headers_def)

lemma body_writeSSEEvent [simp]: "rw_body (writeSSEEvent w p) = rw_body w @ [SSEEvent p]"
  by (simp add: writeSSEEvent_def)

lemma notifs_of_append [simp]: "notifs_of (xs @ ys) = notifs_of xs @ notifs_of ys"
  by (induction xs rule: notifs_of.induct) simp_all
























subsection \<open>GET: the session id is taken as it comes\<close>

lemma get_step_sessionID [simp]: "gs_sessionID (get_step l s) = gs_sessionID s"
  by (cases l)
     (auto simp: get_step_def Let_def
      split: forwarder_pc.splits pinger_pc.splits get_pc.splits list.splits prod.splits)

lemma get_run_sessionID [simp]: "gs_sessionID (get_run ls s) = gs_sessionID s"
  by (induction ls arbitrary: s) simp_all

lemma sent_writeSSEEvent:
  "rw_status w = Some c \<Longrightarrow>
     rw_status (writeSSEEvent w p) = Some c \<and> rw_sent (writeSSEEvent w p) = rw_sent w"
  by (simp add: writeSSEEvent_def Write_def WriteHeader_def Let_def)

lemma get_step_sent:
  "rw_status (gs_w s) = Some c \<Longrightarrow>
     rw_status (gs_w (get_step l s)) = Some c \<and> rw_sent (gs_w (get_step l s)) = rw_sent (gs_w s)"
  by (cases l)
     (auto simp: get_step_def Let_def sent_writeSSEEvent
      split: forwarder_pc.splits pinger_pc.splits get_pc.splits list.splits prod.splits)

lemma get_run_sent:
  "rw_status (gs_w s) = Some c \<Longrightarrow>
     rw_status (gs_w (get_run ls s)) = Some c \<and> rw_sent (gs_w (get_run ls s)) = rw_sent (gs_w s)"
proof (induction ls arbitrary: s)
  case Nil
  then show ?case by simp
next
  case (Cons l ls)
  from get_step_sent [OF Cons.prems, of l] Cons.IH [of "get_step l s"]
  show ?case by simp
qed

lemma main_with_manager [simp]: "gs_main (with_manager manager st) = gs_main st"
  by (simp add: with_manager_def)

lemma get_step_manager:
  "get_step l (with_manager manager st) = with_manager manager (get_step l st)"
  by (cases l)
     (auto simp: with_manager_def get_step_def nextRequestID_def Let_def
      split: forwarder_pc.splits pinger_pc.splits get_pc.splits list.splits prod.splits)

lemma get_run_manager:
  "get_run ls (with_manager manager st) = with_manager manager (get_run ls st)"
  by (induction ls arbitrary: st) (simp_all add: get_step_manager)

lemma get_init_manager:
  "get_init (s\<lparr>sessionIdManager := manager\<rparr>) w sid = with_manager manager (get_init s w sid)"
  by (simp add: get_init_def with_manager_def)

text \<open>
  Claim C10. A GET makes no call to the session-id policy, whatever the policy is: the
  session id is the value of the \<^verbatim>\<open>Mcp-Session-Id\<close> header, and the text of a new UUID
  exactly when that value is empty. Provided \<^verbatim>\<open>RegisterSession\<close> returns no error for it,
  the answer has status 200 and went out as \<^verbatim>\<open>text/event-stream\<close>, and on a writer that can
  flush the handler is in its streaming loop with that session id.
\<close>

theorem handleGet_no_validation:
  assumes "sid = (if Header_Get (req_header r) headerKeySessionID = [] then uuid_New env
                  else Header_Get (req_header r) headerKeySessionID)"
    and "engine_RegisterSession env sid = None"
  shows "hd (snd (handleGet env s (new_writer fl) r sched)) = CallRegisterSession sid
       \<and> (\<forall>x. CallValidate x \<notin> set (snd (handleGet env s (new_writer fl) r sched)))
       \<and> (\<forall>manager. handleGet env (s\<lparr>sessionIdManager := manager\<rparr>) (new_writer fl) r sched
                      = (map_sum id (with_manager manager)
                           (fst (handleGet env s (new_writer fl) r sched)),
                         snd (handleGet env s (new_writer fl) r sched)))
       \<and> (case fst (handleGet env s (new_writer fl) r sched) of
             Inl w' \<Rightarrow> \<not> fl \<and> rw_status w' = Some 200
                       \<and> rw_sent w' ''Content-Type'' = Some ''text/event-stream''
           | Inr st \<Rightarrow> fl \<and> gs_sessionID st = sid \<and> rw_status (gs_w st) = Some 200
                       \<and> rw_sent (gs_w st) ''Content-Type'' = Some ''text/event-stream'')"
proof -
  let ?w1 = "WriteHeader StatusOK
               (Header_Set ''Connection'' ''keep-alive''
                 (Header_Set ''Cache-Control'' ''no-cache''
                   (Header_Set ''Content-Type'' ''text/event-stream'' (new_writer fl))))"
  have w1: "rw_status ?w1 = Some 200
            \<and> rw_sent ?w1 ''Content-Type'' = Some ''text/event-stream''"
    by (simp add: writer_defs status_defs)
  have calls: "hd (snd (handleGet env s (new_writer fl) r sched)) = CallRegisterSession sid
       \<and> (\<forall>x. CallValidate x \<notin> set (snd (handleGet env s (new_writer fl) r sched)))"
    using assms by (auto simp: handleGet_def Let_def)
  have indep: "handleGet env (s\<lparr>sessionIdManager := manager\<rparr>) (new_writer fl) r sched
                 = (map_sum id (with_manager manager)
                      (fst (handleGet env s (new_writer fl) r sched)),
                    snd (handleGet env s (new_writer fl) r sched))" for manager
    using assms
    by (auto simp: handleGet_def Let_def get_init_manager get_run_manager)
  have res: "case fst (handleGet env s (new_writer fl) r sched) of
             Inl w' \<Rightarrow> \<not> fl \<and> rw_status w' = Some 200
                       \<and> rw_sent w' ''Content-Type'' = Some ''text/event-stream''
           | Inr st \<Rightarrow> fl \<and> gs_sessionID st = sid \<and> rw_status (gs_w st) = Some 200
                       \<and> rw_sent (gs_w st) ''Content-Type'' = Some ''text/event-stream''"
  proof (cases fl)
    case True
    have "rw_status (gs_w (get_init s ?w1 sid)) = Some 200"
      using w1 by (simp add: get_init_def)
    from get_run_sent [OF this, of sched] w1 True assms show ?thesis
      by (simp add: handleGet_def Let_def new_writer_def get_init_def)
  next
    case False
    with assms show ?thesis
      by (simp add: handleGet_def Let_def writer_defs status_defs)
  qed
  from calls indep res show ?thesis by blast
qed

text \<open>
  A GET with the malformed id \<^verbatim>\<open>abc\<close> under the insecure stateful policy, one with the id
  \<^verbatim>\<open>s1\<close> under a policy that reports every session terminated, and one without the
  header under the stateless policy: each is in its streaming loop with status 200.
\<close>

theorem handleGet_no_validation_witness:
  "snd (Validate (InsecureStatefulSessionIdManager (uuid_shape 0)) ''abc'') \<noteq> None
   \<and> engine_RegisterSession (example_env ([], None)) ''abc'' = None
   \<and> map_sum rw_status (\<lambda>st. (gs_sessionID st, rw_status (gs_w st)))
         (example_get (Some ''abc'')
            (example_server (InsecureStatefulSessionIdManager (uuid_shape 0)))
            [Notify ''n1'', FwdRecv, FwdSend, MainWrite])
       = Inr (''abc'', Some 200)
   \<and> fst (Validate strict_policy ''s1'')
   \<and> map_sum rw_status (\<lambda>st. (gs_sessionID st, rw_status (gs_w st)))
         (example_get (Some ''s1'') (example_server strict_policy) [])
       = Inr (''s1'', Some 200)
   \<and> map_sum rw_status (\<lambda>st. (gs_sessionID st, rw_status (gs_w st)))
         (example_get None (example_server StatelessSessionIdManager) [])
       = Inr (''123e4567-e89b-42d3-a456-426614174000'', Some 200)"
proof -
  let ?env = "example_env ([], None)"
  let ?r1 = "example_request ''GET'' [] (Inr []) (Some ''abc'')"
  let ?r2 = "example_request ''GET'' [] (Inr []) (Some ''s1'')"
  let ?r3 = "example_request ''GET'' [] (Inr []) None"
  have s1: "''abc'' = (if Header_Get (req_header ?r1) headerKeySessionID = [] then uuid_New ?env
                  else Header_Get (req_header ?r1) headerKeySessionID)"
    by (simp add: example_defs)
  have s2: "''s1'' = (if Header_Get (req_header ?r2) headerKeySessionID = [] then uuid_New ?env
                  else Header_Get (req_header ?r2) headerKeySessionID)"
    by (simp add: example_defs)
  have s3: "''123e4567-e89b-42d3-a456-426614174000''
              = (if Header_Get (req_header ?r3) headerKeySessionID = [] then uuid_New ?env
                  else Header_Get (req_header ?r3) headerKeySessionID)"
    by (simp add: example_defs)
  have reg: "engine_RegisterSession ?env sid = None" for sid
    by (simp add: example_env_def)
  have v1: "snd (Validate (InsecureStatefulSessionIdManager (uuid_shape 0)) ''abc'') \<noteq> None"
    by (simp add: example_defs)
  have v2: "fst (Validate strict_policy ''s1'')"
    by (simp add: example_defs)
  note t1 = handleGet_no_validation [OF s1 reg,
      of "example_server (InsecureStatefulSessionIdManager (uuid_shape 0))" True
         "[Notify ''n1'', FwdRecv, FwdSend, MainWrite]"]
  note t2 = handleGet_no_validation [OF s2 reg, of "example_server strict_policy" True "[]"]
  note t3 = handleGet_no_validation [OF s3 reg,
      of "example_server StatelessSessionIdManager" True "[]"]
  have c1: "map_sum rw_status (\<lambda>st. (gs_sessionID st, rw_status (gs_w st)))
         (example_get (Some ''abc'')
            (example_server (InsecureStatefulSessionIdManager (uuid_shape 0)))
            [Notify ''n1'', FwdRecv, FwdSend, MainWrite])
       = Inr (''abc'', Some 200)"
    using t1 by (auto simp: example_get_def split: sum.splits)
  have c2: "map_sum rw_status (\<lambda>st. (gs_sessionID st, rw_status (gs_w st)))
         (example_get (Some ''s1'') (example_server strict_policy) [])
       = Inr (''s1'', Some 200)"
    using t2 by (auto simp: example_get_def split: sum.splits)
  have c3: "map_sum rw_status (\<lambda>st. (gs_sessionID st, rw_status (gs_w st)))
         (example_get None (example_server StatelessSessionIdManager) [])
       = Inr (''123e4567-e89b-42d3-a456-426614174000'', Some 200)"
    using t3 by (auto simp: example_get_def split: sum.splits)
  from v1 v2 reg c1 c2 c3 show ?thesis by blast
qed
subsection \<open>The request counter and the heartbeat ids\<close>

lemma wrap64_id: "- (2 ^ 63) \<le> x \<Longrightarrow> x < 2 ^ 63 \<Longrightarrow> wrap64 x = x"
  by (simp add: wrap64_def)

lemma nextRequestID_value:
  assumes "0 \<le> counter_of s sid" and "counter_of s sid + 1 < 2 ^ 63"
  shows "fst (nextRequestID s sid) = counter_of s sid + 1"
    and "counter_of (snd (nextRequestID s sid)) sid = counter_of s sid + 1"
  using assms
  by (auto simp: nextRequestID_def counter_of_def Let_def wrap64_id split: option.splits)

lemma upto_snoc: "i \<le> j + 1 \<Longrightarrow> [i..j] @ [j + 1] = [i..j + 1]"
  using upto_rec2 [of i "j + 1"] by simp

lemma upto_eq_Cons: "[i..j] = x # xs \<Longrightarrow> x = i \<and> xs = [i + 1..j] \<and> i \<le> j"
  by (cases "i \<le> j") (auto simp: upto_rec1)

lemma upto_eq_snoc: "[i..j] = xs @ [x] \<Longrightarrow> x = j \<and> xs = [i..j - 1] \<and> i \<le> j"
  by (cases "i \<le> j") (auto simp: upto_rec2)

lemma ping_ids_append [simp]: "ping_ids (xs @ ys) = ping_ids xs @ ping_ids ys"
  by (induction xs rule: ping_ids.induct) simp_all

lemma event_payloads_append [simp]:
  "event_payloads (xs @ ys) = event_payloads xs @ event_payloads ys"
  by (induction xs rule: event_payloads.induct) simp_all

lemma nextRequestIDs_values:
  "0 \<le> counter_of s sid \<Longrightarrow> counter_of s sid + int n < 2 ^ 63 \<Longrightarrow>
     fst (nextRequestIDs n s sid) = [counter_of s sid + 1..counter_of s sid + int n]"
proof (induction n arbitrary: s)
  case 0
  then show ?case by simp
next
  case (Suc n)
  let ?c = "counter_of s sid"
  obtain v s1 where step: "nextRequestID s sid = (v, s1)"
    by (cases "nextRequestID s sid")
  from Suc.prems have b: "?c + 1 < 2 ^ 63" by simp
  from nextRequestID_value [OF Suc.prems(1) b] step
  have v: "v = ?c + 1" and c1: "counter_of s1 sid = ?c + 1" by simp_all
  from Suc.prems c1 have "0 \<le> counter_of s1 sid" "counter_of s1 sid + int n < 2 ^ 63"
    by simp_all
  from Suc.IH [OF this] c1
  have rest: "fst (nextRequestIDs n s1 sid) = [?c + 1 + 1..?c + int (Suc n)]"
    by (simp add: add.assoc)
  have "[?c + 1..?c + int (Suc n)] = (?c + 1) # [?c + 1 + 1..?c + int (Suc n)]"
    by (rule upto_rec1) simp
  with step v rest show ?case
    by (simp add: split_beta)
qed

lemma ping_inv_init:
  "rw_body w = [] \<Longrightarrow> ping_inv (counter_of s sid) 0 0 0 (get_init s w sid)"
  by (simp add: ping_inv_def get_init_def)

text \<open>A step keeps the invariant; only a tick draws an id, and it draws one.\<close>

lemma ping_inv_tick:
  assumes inv: "ping_inv c0 a q m st" and pc: "gs_pinger st = PSelect"
    and c0: "0 \<le> c0" and bound: "c0 + int m + 1 < 2 ^ 63"
  shows "ping_inv c0 a (Suc m) (Suc m) (get_step Tick st)"
proof -
  let ?sid = "gs_sessionID st"
  from inv pc have q: "q = m" and cnt: "counter_of (gs_srv st) ?sid = c0 + int m"
    and aq: "a \<le> q"
    and chan: "ping_ids (gs_writeChan st) = [c0 + int a + 1..c0 + int m]"
    and body: "ping_ids (event_payloads (rw_body (gs_w st))) = [c0 + 1..c0 + int a]"
    by (auto simp: ping_inv_def)
  from c0 cnt have nonneg: "0 \<le> counter_of (gs_srv st) ?sid" by simp
  from bound cnt have lt: "counter_of (gs_srv st) ?sid + 1 < 2 ^ 63" by simp
  obtain v srv where nx: "nextRequestID (gs_srv st) ?sid = (v, srv)"
    by (cases "nextRequestID (gs_srv st) ?sid")
  from nextRequestID_value [OF nonneg lt] nx cnt
  have v: "v = c0 + int m + 1" and cnt': "counter_of srv ?sid = c0 + int m + 1"
    by simp_all
  have st': "get_step Tick st = st\<lparr>gs_srv := srv, gs_pinger := PSend (PingRequest v)\<rparr>"
    using pc nx by (simp add: get_step_def)
  from aq q have "c0 + int a + 1 \<le> c0 + int m + 1" by simp
  from upto_snoc [OF this] chan v
  have "ping_ids (gs_writeChan st) @ [v] = [c0 + int a + 1..c0 + int (Suc m)]"
    by (simp add: algebra_simps)
  with aq q cnt' body show ?thesis
    unfolding st' by (simp add: ping_inv_def algebra_simps)
qed

lemma ping_inv_write:
  assumes inv: "ping_inv c0 a q m st" and pc: "gs_main st = GLoop"
    and ch: "gs_writeChan st = data # rest"
  shows "\<exists>a'. ping_inv c0 a' q m (get_step MainWrite st)"
proof -
  have st': "get_step MainWrite st
               = st\<lparr>gs_w := writeSSEEvent (gs_w st) data, gs_writeChan := rest\<rparr>"
    using pc ch by (simp add: get_step_def)
  show ?thesis
  proof (cases data)
    case (PingRequest ident)
    from inv ch PingRequest
    have "[c0 + int a + 1..c0 + int q] = ident # ping_ids (rest @ hand_ping (gs_pinger st))"
      by (simp add: ping_inv_def)
    from upto_eq_Cons [OF this]
    have ident: "ident = c0 + int a + 1"
      and rest: "ping_ids (rest @ hand_ping (gs_pinger st)) = [c0 + int a + 1 + 1..c0 + int q]"
      and le: "c0 + int a + 1 \<le> c0 + int q" by simp_all
    from inv have body: "ping_ids (event_payloads (rw_body (gs_w st))) = [c0 + 1..c0 + int a]"
      by (simp add: ping_inv_def)
    have "c0 + 1 \<le> c0 + int a + 1" by simp
    from upto_snoc [OF this] body ident
    have body': "ping_ids (event_payloads (rw_body (gs_w st))) @ [ident] = [c0 + 1..c0 + int (Suc a)]"
      by (simp add: algebra_simps)
    from inv le rest body' PingRequest have "ping_inv c0 (Suc a) q m (get_step MainWrite st)"
      unfolding st' by (simp add: ping_inv_def algebra_simps)
    then show ?thesis by blast
  next
    case (Notif nt)
    with inv ch have "ping_inv c0 a q m (get_step MainWrite st)"
      unfolding st' by (simp add: ping_inv_def)
    then show ?thesis by blast
  next
    case (Resp x)
    with inv ch have "ping_inv c0 a q m (get_step MainWrite st)"
      unfolding st' by (simp add: ping_inv_def)
    then show ?thesis by blast
  next
    case (JSONRPCError x1 x2 x3)
    with inv ch have "ping_inv c0 a q m (get_step MainWrite st)"
      unfolding st' by (simp add: ping_inv_def)
    then show ?thesis by blast
  qed
qed

lemma ping_inv_ping_done:
  assumes inv: "ping_inv c0 a q m st"
  shows "\<exists>q'. ping_inv c0 a q' m (get_step PingDone st)"
proof (cases "gs_pinger st")
  case (PSend message)
  show ?thesis
  proof (cases "gs_done st")
    case True
    with PSend have st': "get_step PingDone st = st\<lparr>gs_pinger := PReturned\<rparr>"
      by (simp add: get_step_def)
    show ?thesis
    proof (cases "ping_ids [message]")
      case Nil
      with inv PSend have "ping_inv c0 a q m (get_step PingDone st)"
        unfolding st' by (simp add: ping_inv_def)
      then show ?thesis by blast
    next
      case (Cons ident ids)
      then have one: "ping_ids [message] = [ident]" by (cases message) auto
      from inv PSend one
      have "[c0 + int a + 1..c0 + int q] = ping_ids (gs_writeChan st) @ [ident]"
        by (simp add: ping_inv_def)
      from upto_eq_snoc [OF this]
      have ch: "ping_ids (gs_writeChan st) = [c0 + int a + 1..c0 + int q - 1]"
        and le: "c0 + int a + 1 \<le> c0 + int q" by simp_all
      from le have q: "int (q - 1) = int q - 1" "a \<le> q - 1" by auto
      from inv ch q have "ping_inv c0 a (q - 1) m (get_step PingDone st)"
        unfolding st' by (simp add: ping_inv_def algebra_simps)
      then show ?thesis by blast
    qed
  next
    case False
    with inv have "ping_inv c0 a q m (get_step PingDone st)"
      by (simp add: get_step_def)
    then show ?thesis by blast
  qed
next
  case PNone
  with inv have "ping_inv c0 a q m (get_step PingDone st)" by (simp add: get_step_def)
  then show ?thesis by blast
next
  case PSelect
  with inv have "ping_inv c0 a q m (get_step PingDone st)"
    by (auto simp: get_step_def ping_inv_def)
  then show ?thesis by blast
next
  case PReturned
  with inv have "ping_inv c0 a q m (get_step PingDone st)" by (simp add: get_step_def)
  then show ?thesis by blast
qed

lemma ping_inv_step:
  assumes inv: "ping_inv c0 a q m st" and c0: "0 \<le> c0" and bound: "c0 + int m + 1 < 2 ^ 63"
  shows "\<exists>a' q' m'. ping_inv c0 a' q' m' (get_step l st) \<and> m' \<le> Suc m"
proof (cases l)
  case (Notify nt)
  with inv have "ping_inv c0 a q m (get_step l st)"
    by (simp add: get_step_def ping_inv_def)
  then show ?thesis by (meson le_SucI order_refl)
next
  case FwdRecv
  with inv have "ping_inv c0 a q m (get_step l st)"
    by (auto simp: get_step_def ping_inv_def split: forwarder_pc.splits list.splits)
  then show ?thesis by (meson le_SucI order_refl)
next
  case FwdSend
  with inv have "ping_inv c0 a q m (get_step l st)"
    by (auto simp: get_step_def ping_inv_def split: forwarder_pc.splits)
  then show ?thesis by (meson le_SucI order_refl)
next
  case FwdDone
  with inv have "ping_inv c0 a q m (get_step l st)"
    by (simp add: get_step_def ping_inv_def)
  then show ?thesis by (meson le_SucI order_refl)
next
  case Tick
  show ?thesis
  proof (cases "gs_pinger st = PSelect")
    case True
    from ping_inv_tick [OF inv True c0 bound] Tick show ?thesis by blast
  next
    case False
    with inv Tick have "ping_inv c0 a q m (get_step l st)"
      by (cases "gs_pinger st") (simp_all add: get_step_def)
    then show ?thesis by (meson le_SucI order_refl)
  qed
next
  case PingSend
  with inv have "ping_inv c0 a q m (get_step l st)"
    by (auto simp: get_step_def ping_inv_def split: pinger_pc.splits)
  then show ?thesis by (meson le_SucI order_refl)
next
  case PingDone
  with ping_inv_ping_done [OF inv] show ?thesis by (meson le_SucI order_refl)
next
  case MainWrite
  show ?thesis
  proof (cases "gs_main st = GLoop \<and> gs_writeChan st \<noteq> []")
    case True
    then obtain data rest where "gs_writeChan st = data # rest"
      by (cases "gs_writeChan st") auto
    with ping_inv_write [OF inv] True MainWrite show ?thesis
      by (meson le_SucI order_refl)
  next
    case False
    with inv MainWrite have "ping_inv c0 a q m (get_step l st)"
      by (auto simp: get_step_def split: get_pc.splits list.splits)
    then show ?thesis by (meson le_SucI order_refl)
  qed
next
  case MainCtxDone
  with inv have "ping_inv c0 a q m (get_step l st)"
    by (simp add: get_step_def ping_inv_def)
  then show ?thesis by (meson le_SucI order_refl)
next
  case GetCtxCancel
  with inv have "ping_inv c0 a q m (get_step l st)"
    by (simp add: get_step_def ping_inv_def)
  then show ?thesis by (meson le_SucI order_refl)
qed

lemma ping_inv_run:
  "ping_inv c0 a q m st \<Longrightarrow> 0 \<le> c0 \<Longrightarrow> c0 + int m + int (length ls) < 2 ^ 63 \<Longrightarrow>
     \<exists>a' q' m'. ping_inv c0 a' q' m' (get_run ls st) \<and> m' \<le> m + length ls"
proof (induction ls arbitrary: st a q m)
  case Nil
  then show ?case by auto
next
  case (Cons l ls)
  from Cons.prems(3) have b: "c0 + int m + 1 < 2 ^ 63" by simp
  from ping_inv_step [OF Cons.prems(1,2) b, of l]
  obtain a1 q1 m1 where 1: "ping_inv c0 a1 q1 m1 (get_step l st)" and m1: "m1 \<le> Suc m"
    by blast
  from m1 Cons.prems(3) have "c0 + int m1 + int (length ls) < 2 ^ 63" by simp
  from Cons.IH [OF 1 Cons.prems(2) this]
  obtain a2 q2 m2 where "ping_inv c0 a2 q2 m2 (get_run ls (get_step l st))"
    and "m2 \<le> m1 + length ls" by blast
  with m1 show ?case by (auto intro!: exI)
qed

lemma handleGet_running:
  assumes "fst (handleGet env s w r sched) = Inr st"
  shows "\<exists>w1. rw_body w1 = rw_body w \<and> st = get_run sched (get_init s w1 (gs_sessionID st))"
proof -
  let ?w1 = "WriteHeader StatusOK
               (Header_Set ''Connection'' ''keep-alive''
                 (Header_Set ''Cache-Control'' ''no-cache''
                   (Header_Set ''Content-Type'' ''text/event-stream'' w)))"
  from assms have "st = get_run sched (get_init s ?w1 (gs_sessionID st))"
    by (auto simp: handleGet_def Let_def get_init_def split: option.splits if_splits)
  moreover have "rw_body ?w1 = rw_body w" by simp
  ultimately show ?thesis by blast
qed

text \<open>
  Claim C8 as the code has it. \<open>n\<close> successive calls of \<^verbatim>\<open>nextRequestID\<close> for a session
  whose counter stands at \<open>c\<close> return \<open>c + 1\<close> to \<open>c + n\<close> (below \<open>2^63\<close>, where the
  counter wraps); \<open>c\<close> is 0 when the session has no entry, so the values then start at 1.
  On a listening stream the ids of the \<^verbatim>\<open>ping\<close> events on the body are \<open>c0 + 1\<close> to
  \<open>c0 + k\<close>, in this order, where \<open>c0\<close> is the session's counter when the stream starts:
  they start at 1 only when the session has no counter entry yet.
\<close>

theorem heartbeat_ids_continue_counter:
  assumes "fst (handleGet env s (new_writer fl) r sched) = Inr st"
    and "c0 = counter_of s (gs_sessionID st)"
    and "0 \<le> c0"
    and "c0 + int (length sched) < 2 ^ 63"
  shows "(\<exists>k. ping_ids (event_payloads (rw_body (gs_w st))) = [c0 + 1..c0 + int k])
       \<and> (0 \<le> counter_of s sid \<and> counter_of s sid + int n < 2 ^ 63 \<longrightarrow>
            fst (nextRequestIDs n s sid) = [counter_of s sid + 1..counter_of s sid + int n])
       \<and> (sessionRequestIDs s sid = None \<longrightarrow> counter_of s sid = 0)"
proof (intro conjI impI)
  from handleGet_running [OF assms(1)]
  obtain w1 where w1: "rw_body w1 = rw_body (new_writer fl)"
    and st: "st = get_run sched (get_init s w1 (gs_sessionID st))" by blast
  from w1 have "rw_body w1 = []" by (simp add: new_writer_def)
  from ping_inv_init [OF this, of s "gs_sessionID st"] assms(2)
  have init: "ping_inv c0 0 0 0 (get_init s w1 (gs_sessionID st))" by simp
  from assms(4) have "c0 + int 0 + int (length sched) < 2 ^ 63" by simp
  from ping_inv_run [OF init assms(3) this]
  obtain a q m where "ping_inv c0 a q m (get_run sched (get_init s w1 (gs_sessionID st)))"
    by blast
  with st have "ping_ids (event_payloads (rw_body (gs_w st))) = [c0 + 1..c0 + int a]"
    by (simp add: ping_inv_def)
  then show "\<exists>k. ping_ids (event_payloads (rw_body (gs_w st))) = [c0 + 1..c0 + int k]"
    by blast
next
  assume "0 \<le> counter_of s sid \<and> counter_of s sid + int n < 2 ^ 63"
  then show "fst (nextRequestIDs n s sid) = [counter_of s sid + 1..counter_of s sid + int n]"
    by (simp add: nextRequestIDs_values)
next
  assume "sessionRequestIDs s sid = None"
  then show "counter_of s sid = 0" by (simp add: counter_of_def)
qed

lemmas get_defs = example_get_def handleGet_def get_init_def get_step_def nextRequestID_def
  wrap64_def Let_def query_params_def WithHeartbeatInterval_def NewStreamableHTTPServer_def
  counter_of_def

text \<open>
  A stream for the session \<^verbatim>\<open>s1\<close> on the example server, whose counter for \<^verbatim>\<open>s1\<close> stands
  at 3, with a heartbeat: two ticks are written, with the ids 4 and 5. And three calls of
  \<^verbatim>\<open>nextRequestID\<close> for a session that has no entry return 1, 2, 3.
\<close>

theorem heartbeat_ids_continue_counter_witness:
  "counter_of (WithHeartbeatInterval 100 (example_server StatelessSessionIdManager)) ''s1'' = 3
   \<and> (\<exists>k. ping_ids (event_payloads (rw_body (gs_w (projr
          (example_get (Some ''s1'')
             (WithHeartbeatInterval 100 (example_server StatelessSessionIdManager))
             [Tick, PingSend, Tick, MainWrite, PingSend, MainWrite]))))) = [3 + 1..3 + int k])
   \<and> rw_body (gs_w (projr
          (example_get (Some ''s1'')
             (WithHeartbeatInterval 100 (example_server StatelessSessionIdManager))
             [Tick, PingSend, Tick, MainWrite, PingSend, MainWrite])))
       = [SSEEvent (PingRequest 4), SSEEvent (PingRequest 5)]
   \<and> sessionRequestIDs (WithHeartbeatInterval 100 (example_server StatelessSessionIdManager))
         ''s2'' = None
   \<and> fst (nextRequestIDs 3 (WithHeartbeatInterval 100 (example_server StatelessSessionIdManager))
         ''s2'') = [0 + 1..0 + int 3]
   \<and> fst (nextRequestIDs 3 (WithHeartbeatInterval 100 (example_server StatelessSessionIdManager))
         ''s2'') = [1, 2, 3]"
proof -
  let ?s = "WithHeartbeatInterval 100 (example_server StatelessSessionIdManager)"
  let ?sched = "[Tick, PingSend, Tick, MainWrite, PingSend, MainWrite]"
  let ?r = "example_request ''GET'' [] (Inr []) (Some ''s1'')"
  define st where "st = projr (example_get (Some ''s1'') ?s ?sched)"
  have run: "fst (handleGet (example_env ([], None)) ?s (new_writer True) ?r ?sched) = Inr st"
    by (simp add: st_def example_get_def handleGet_def Let_def example_defs new_writer_def)
  have sid: "gs_sessionID st = ''s1''"
    by (simp add: st_def example_get_def handleGet_def Let_def example_defs new_writer_def
        get_init_def)
  have c3: "counter_of ?s ''s1'' = 3"
    by (simp add: counter_of_def WithHeartbeatInterval_def example_server_def)
  have c0: "3 = counter_of ?s (gs_sessionID st)"
    using c3 sid by simp
  have none: "sessionRequestIDs ?s ''s2'' = None"
    by (simp add: WithHeartbeatInterval_def example_server_def)
  note t = heartbeat_ids_continue_counter [OF run c0, of "''s2''" 3]
  from t have ids: "\<exists>k. ping_ids (event_payloads (rw_body (gs_w st))) = [3 + 1..3 + int k]"
    by simp
  from t none have z: "counter_of ?s ''s2'' = 0" by simp
  with t have vals: "fst (nextRequestIDs 3 ?s ''s2'') = [0 + 1..0 + int 3]"
    by simp
  have body: "rw_body (gs_w st) = [SSEEvent (PingRequest 4), SSEEvent (PingRequest 5)]"
    by (simp add: st_def get_defs example_defs writer_defs status_defs)
  have "[0 + 1..0 + int 3] = [1, 2, 3]"
    by (simp add: upto_rec1)
  with vals have vals': "fst (nextRequestIDs 3 ?s ''s2'') = [1, 2, 3]" by simp
  from c3 ids body none vals vals' show ?thesis
    unfolding st_def by blast
qed

text \<open>
  Claim C8 as stated fails for a second listening stream of the same session: on a new
  server with a heartbeat, the first stream of a session writes the ping with id 1 and
  ends; the next stream of that session writes a ping whose id is 2, not 1.
\<close>

theorem heartbeat_ids_second_stream:
  "rw_body (gs_w (projr
      (example_get (Some ''mcp-session-123e4567-e89b-42d3-a456-426614174000'')
         (WithHeartbeatInterval 100 (NewStreamableHTTPServer (uuid_shape 0)))
         [Tick, PingSend, MainWrite, GetCtxCancel, MainCtxDone])))
     = [SSEEvent (PingRequest 1)]
   \<and> gs_main (projr
      (example_get (Some ''mcp-session-123e4567-e89b-42d3-a456-426614174000'')
         (WithHeartbeatInterval 100 (NewStreamableHTTPServer (uuid_shape 0)))
         [Tick, PingSend, MainWrite, GetCtxCancel, MainCtxDone])) = GReturned
   \<and> rw_body (gs_w (projr
      (example_get (Some ''mcp-session-123e4567-e89b-42d3-a456-426614174000'')
         (gs_srv (projr
            (example_get (Some ''mcp-session-123e4567-e89b-42d3-a456-426614174000'')
               (WithHeartbeatInterval 100 (NewStreamableHTTPServer (uuid_shape 0)))
               [Tick, PingSend, MainWrite, GetCtxCancel, MainCtxDone])))
         [Tick, PingSend, MainWrite])))
     = [SSEEvent (PingRequest 2)]"
  by (simp add: get_defs example_defs writer_defs status_defs)

end
